theory Spec2Isabelle
  imports Main
begin

section \<open>Values, dictionaries and errors\<close>

text \<open>
  The values that travel through the sources: strings read from the environment, a file
  or an INI document, \<open>None\<close> (a dotenv key without a value), and what a JSON decoder
  returns. A Python \<open>dict\<close> keeps insertion order, which decides the result where two
  entries collide, so a dictionary is an association list, read with \<open>map_of\<close> and
  written with \<open>dict_set\<close>.
\<close>

datatype pyval =
    VNone
  | VStr string
  | VInt int
  | VBool bool
  | VList "pyval list"
  | VDict "(string \<times> pyval) list"

type_synonym mapping = "(string \<times> pyval) list"

text \<open>The exceptions the modelled code can raise. \<open>JsonError\<close>, \<open>NotADirectory\<close>,
  \<open>IniMissing\<close>, \<open>IniNotAFile\<close> and \<open>IniNoSection\<close> are the raises of
  \<open>SettingsError\<close>, told apart by their message; \<open>ReadError\<close> is what
  \<open>path.read_text()\<close> raises on a file that cannot be read or decoded, with the
  candidate name; \<open>SourceFailure\<close> stands for an exception of a caller's own source.\<close>

datatype read_error = OSError | UnicodeDecodeError

datatype error =
    ValueError string
  | KeyError string
  | TypeError
  | AttributeError
  | IndexError
  | ImportError
  | JsonError string
  | ReadError read_error string
  | NotADirectory string
  | IniMissing string
  | IniNotAFile string
  | IniNoSection string
  | SourceFailure string

text \<open>\<open>d[k] = v\<close>: an existing key keeps its position, a new key goes last.\<close>

fun dict_set :: "'k \<Rightarrow> 'v \<Rightarrow> ('k \<times> 'v) list \<Rightarrow> ('k \<times> 'v) list" where
  "dict_set k v [] = [(k, v)]"
| "dict_set k v (p # ps) = (if fst p = k then (k, v) # ps else p # dict_set k v ps)"

text \<open>\<open>{**a, **b}\<close> and \<open>dict(items)\<close>: the items are stored one after the other.\<close>

definition dict_of_items :: "('k \<times> 'v) list \<Rightarrow> ('k \<times> 'v) list" where
  "dict_of_items kvs = fold (\<lambda>(k, v) d. dict_set k v d) kvs []"

definition dict_union :: "('k \<times> 'v) list \<Rightarrow> ('k \<times> 'v) list \<Rightarrow> ('k \<times> 'v) list" where
  "dict_union a b = fold (\<lambda>(k, v) d. dict_set k v d) b (dict_of_items a)"

fun is_dict :: "pyval \<Rightarrow> bool" where
  "is_dict (VDict _) = True"
| "is_dict _ = False"

text \<open>Python truthiness of a value, as \<open>if env_val_built:\<close> reads it.\<close>

fun truthy :: "pyval \<Rightarrow> bool" where
  "truthy VNone = False"
| "truthy (VStr s) = (s \<noteq> [])"
| "truthy (VInt i) = (i \<noteq> 0)"
| "truthy (VBool b) = b"
| "truthy (VList xs) = (xs \<noteq> [])"
| "truthy (VDict d) = (d \<noteq> [])"

section \<open>Strings\<close>

text \<open>
  A Python \<open>str\<close> is a sequence of code points. Names, file contents and environment
  values are modelled as \<open>string\<close>, whose characters are the code points below 256; the
  texts \<open>DelimitedList\<close> parses are modelled as lists of code points of any size
  (\<open>ustring\<close>). \<open>str.startswith\<close>, \<open>str.split\<close> and \<open>str.join\<close> do not look at what the
  characters are and serve both. \<open>split\<close> raises \<open>ValueError\<close> on an empty separator.
\<close>

type_synonym ustring = "nat list"

text \<open>\<open>str.lower\<close> on the code points below 256: the letters \<open>A\<close> to \<open>Z\<close> and the
  letters from \<open>0xC0\<close> to \<open>0xDE\<close>, the multiplication sign \<open>0xD7\<close> apart.\<close>

definition lower_char :: "char \<Rightarrow> char" where
  "lower_char c =
     (let n = (of_char c :: nat)
      in if (65 \<le> n \<and> n \<le> 90) \<or> (192 \<le> n \<and> n \<le> 222 \<and> n \<noteq> 215) then char_of (n + 32) else c)"

definition lower :: "string \<Rightarrow> string" where
  "lower s = map lower_char s"

definition startswith :: "'a list \<Rightarrow> 'a list \<Rightarrow> bool" where
  "startswith s p = (take (length p) s = p)"

text \<open>The code points \<open>str.strip\<close> removes, those \<open>str.isspace\<close> holds of.\<close>

definition is_space_cp :: "nat \<Rightarrow> bool" where
  "is_space_cp n =
     ((9 \<le> n \<and> n \<le> 13) \<or> (28 \<le> n \<and> n \<le> 32) \<or> n = 0x85 \<or> n = 0xA0 \<or> n = 0x1680 \<or>
      (0x2000 \<le> n \<and> n \<le> 0x200A) \<or> n = 0x2028 \<or> n = 0x2029 \<or> n = 0x202F \<or> n = 0x205F \<or>
      n = 0x3000)"

text \<open>The same on the characters of a \<open>string\<close>: the code points below 256 among
  them.\<close>

definition is_space :: "char \<Rightarrow> bool" where
  "is_space c =
     (c \<in> set [CHR 0x09, CHR 0x0A, CHR 0x0B, CHR 0x0C, CHR 0x0D, CHR 0x1C, CHR 0x1D, CHR 0x1E,
                CHR 0x1F, CHR 0x20, CHR 0x85, CHR 0xA0])"

definition strip_by :: "('a \<Rightarrow> bool) \<Rightarrow> 'a list \<Rightarrow> 'a list" where
  "strip_by space s = rev (dropWhile space (rev (dropWhile space s)))"

definition strip :: "string \<Rightarrow> string" where
  "strip s = strip_by is_space s"

definition strip_text :: "ustring \<Rightarrow> ustring" where
  "strip_text s = strip_by is_space_cp s"

function split_from :: "'a list \<Rightarrow> 'a list \<Rightarrow> 'a list \<Rightarrow> 'a list list" where
  "split_from sep acc [] = [acc]"
| "split_from sep acc (c # cs) =
     (if sep \<noteq> [] \<and> startswith (c # cs) sep
      then acc # split_from sep [] (drop (length sep) (c # cs))
      else split_from sep (acc @ [c]) cs)"
  by pat_completeness auto
termination
  by (relation "measure (\<lambda>(sep, acc, s). length s)") auto

definition py_split :: "'a list \<Rightarrow> 'a list \<Rightarrow> error + 'a list list" where
  "py_split s sep = (if sep = [] then Inl (ValueError ''empty separator'') else Inr (split_from sep [] s))"

fun py_join :: "'a list \<Rightarrow> 'a list list \<Rightarrow> 'a list" where
  "py_join sep [] = []"
| "py_join sep [x] = x"
| "py_join sep (x # y # ys) = x @ sep @ py_join sep (y # ys)"

section \<open>Deep merge\<close>

text \<open>
  Modelled from the spec: \<open>deep_update\<close> is imported from the validation library and is
  not part of the repository. The spec gives its semantics: scalar and list values replace
  outright; where both sides hold a mapping at a key they are merged recursively; the
  updating (higher-precedence) side wins otherwise. The first mapping is the base, every
  further mapping updates the result so far.
\<close>

fun deep_update :: "mapping \<Rightarrow> mapping \<Rightarrow> mapping" where
  "deep_update m [] = m"
| "deep_update m ((k, VDict d') # us) =
     (case map_of m k of
        Some (VDict d) \<Rightarrow> deep_update (dict_set k (VDict (deep_update d d')) m) us
      | _ \<Rightarrow> deep_update (dict_set k (VDict d') m) us)"
| "deep_update m ((k, v) # us) = deep_update (dict_set k v m) us"

definition deep_update_all :: "mapping list \<Rightarrow> error + mapping" where
  "deep_update_all ms = (case ms of [] \<Rightarrow> Inl TypeError | m # us \<Rightarrow> Inr (foldl deep_update m us))"

section \<open>Schema fields and the outside world\<close>

text \<open>
  A field of the schema, with what the sources read of it: its name and alias, the
  entries \<open>env\<close>, \<open>matchfull\<close>, \<open>ini\<close> and \<open>ini_section\<close> of \<open>field_info.extra\<close>,
  the answer of \<open>field.is_complex()\<close>, whether the field's type is a union, and
  \<open>is_complex()\<close> of each of its sub-fields.
\<close>

datatype source_names = NameStr string | NameList "string list"

record field =
  field_name :: string
  field_alias :: string
  extra_env :: "source_names option"
  extra_matchfull :: "string option"
  extra_ini :: "string option"
  extra_ini_section :: "string option"
  is_complex :: bool
  is_union :: bool
  sub_fields :: "bool list"

text \<open>The model class: its fields in declaration order and \<open>__config__.json_loads\<close>
  (\<open>None\<close> where the decoder raises \<open>ValueError\<close>).\<close>

record model =
  model_fields :: "field list"
  json_loads :: "string \<Rightarrow> pyval option"

text \<open>A node of the file system. A regular file carries what \<open>read_text()\<close> gives: its
  text, or the exception raised when it cannot be read or decoded.\<close>

datatype fs_node = RegularFile "read_error + string" | Directory | OtherNode

text \<open>The parsed INI document: \<open>parser.sections()\<close> and
  \<open>parser.get(section, key, raw=True, fallback=None)\<close>.\<close>

record ini_doc =
  ini_sections :: "string list"
  ini_get :: "string \<Rightarrow> string \<Rightarrow> string option"

text \<open>
  What the sources read from outside the program: the process environment, the dotenv
  reader (absent when the package is not installed), the regular-expression engine
  (\<open>re.fullmatch\<close>, giving the match's groups), the file system (the node at an expanded
  path, and the node at \<open>path / name\<close>) and the INI parser.
\<close>

record world =
  os_environ :: "(string \<times> string) list"
  dotenv_values :: "(string \<Rightarrow> string \<Rightarrow> (string \<times> string option) list) option"
  re_fullmatch :: "string \<Rightarrow> string \<Rightarrow> string option list option"
  path_node :: "string \<Rightarrow> fs_node option"
  child_node :: "string \<Rightarrow> string \<Rightarrow> fs_node option"
  read_ini :: "string \<Rightarrow> string option \<Rightarrow> error + ini_doc"

type_synonym env_vars = "(string \<times> string option) list"

fun opt_val :: "string option \<Rightarrow> pyval" where
  "opt_val None = VNone"
| "opt_val (Some s) = VStr s"

section \<open>Field name resolution\<close>

definition get_source_names :: "field \<Rightarrow> (string \<Rightarrow> string) option \<Rightarrow> string list" where
  "get_source_names f transform =
     (let source_names =
            (case extra_env f of
               None \<Rightarrow> [field_name f]
             | Some (NameStr s) \<Rightarrow> [s]
             | Some (NameList l) \<Rightarrow> l)
      in case transform of None \<Rightarrow> source_names | Some t \<Rightarrow> map t source_names)"

section \<open>EnvSource\<close>

record env_source =
  env_file :: "string option"
  env_file_encoding :: "string option"
  env_nested_delimiter :: "string option"
  env_prefix :: "string option"
  case_sensitive :: bool

text \<open>The constructor; an omitted keyword argument is \<open>None\<close>.\<close>

definition EnvSource_init ::
  "string option \<Rightarrow> string option \<Rightarrow> string option \<Rightarrow> string option \<Rightarrow> bool option \<Rightarrow> env_source" where
  "EnvSource_init file encoding delimiter prefix cs =
     \<lparr>env_file = file, env_file_encoding = encoding, env_nested_delimiter = delimiter,
      env_prefix = prefix, case_sensitive = (case cs of None \<Rightarrow> True | Some b \<Rightarrow> b)\<rparr>"

definition field_is_complex :: "field \<Rightarrow> bool \<times> bool" where
  "field_is_complex f =
     (if is_complex f then (True, False)
      else if is_union f \<and> sub_fields f \<noteq> [] \<and> (\<exists>c \<in> set (sub_fields f). c) then (True, True)
      else (False, False))"

text \<open>
  The walk \<open>for key in keys: env_var = env_var.setdefault(key, {})\<close> followed by
  \<open>env_var[last_key] = env_val\<close>. Where the walk meets a value that is not a
  dictionary, \<open>setdefault\<close> raises \<open>AttributeError\<close> and the final store \<open>TypeError\<close>.
\<close>

fun set_path :: "string list \<Rightarrow> string \<Rightarrow> pyval \<Rightarrow> mapping \<Rightarrow> error + mapping" where
  "set_path [] last_key v m = Inr (dict_set last_key v m)"
| "set_path (k # ks) last_key v m =
     (case map_of m k of
        None \<Rightarrow>
          (case set_path ks last_key v [] of
             Inl e \<Rightarrow> Inl e
           | Inr sub \<Rightarrow> Inr (dict_set k (VDict sub) m))
      | Some (VDict sub0) \<Rightarrow>
          (case set_path ks last_key v sub0 of
             Inl e \<Rightarrow> Inl e
           | Inr sub \<Rightarrow> Inr (dict_set k (VDict sub) m))
      | Some _ \<Rightarrow> Inl (if ks = [] then TypeError else AttributeError))"

text \<open>\<open>_, *keys, last_key = parts\<close>: at least two parts, or \<open>ValueError\<close>.\<close>

definition unpack_keys :: "string list \<Rightarrow> error + (string list \<times> string)" where
  "unpack_keys parts =
     (if length parts < 2 then Inl (ValueError ''not enough values to unpack'')
      else Inr (butlast (tl parts), last parts))"

fun explode_loop :: "string \<Rightarrow> string list \<Rightarrow> env_vars \<Rightarrow> mapping \<Rightarrow> error + mapping" where
  "explode_loop delim prefixes [] result = Inr result"
| "explode_loop delim prefixes ((env_name, env_val) # rest) result =
     (if \<not> (\<exists>prefix \<in> set prefixes. startswith env_name prefix)
      then explode_loop delim prefixes rest result
      else case py_split env_name delim of
             Inl e \<Rightarrow> Inl e
           | Inr parts \<Rightarrow>
               (case unpack_keys parts of
                  Inl e \<Rightarrow> Inl e
                | Inr (keys, last_key) \<Rightarrow>
                    (case set_path keys last_key (opt_val env_val) result of
                       Inl e \<Rightarrow> Inl e
                     | Inr result' \<Rightarrow> explode_loop delim prefixes rest result')))"

definition explode_env_vars :: "env_vars \<Rightarrow> string list \<Rightarrow> string option \<Rightarrow> error + mapping" where
  "explode_env_vars vars env_names env_nested_delimiter' =
     (let delim = (case env_nested_delimiter' of None \<Rightarrow> [] | Some d \<Rightarrow> d);
          prefixes = map (\<lambda>env_name. env_name @ delim) env_names
      in explode_loop delim prefixes vars [])"

text \<open>The environment a call reads: the process environment, lower-cased unless the
  source is case-sensitive, under the dotenv file's entries when the file exists.\<close>

definition read_env_file :: "world \<Rightarrow> string \<Rightarrow> string option \<Rightarrow> bool \<Rightarrow> error + env_vars" where
  "read_env_file w file_path encoding cs =
     (case dotenv_values w of
        None \<Rightarrow> Inl ImportError
      | Some dotenv \<Rightarrow>
          (let file_vars = dotenv file_path (case encoding of None \<Rightarrow> ''utf8'' | Some e \<Rightarrow> if e = [] then ''utf8'' else e)
           in if \<not> cs then Inr (dict_of_items (map (\<lambda>(k, v). (lower k, v)) file_vars))
              else Inr file_vars))"

definition load_env_vars :: "env_source \<Rightarrow> world \<Rightarrow> error + env_vars" where
  "load_env_vars src w =
     (let vars =
            (if case_sensitive src then map (\<lambda>(k, v). (k, Some v)) (os_environ w)
             else dict_of_items (map (\<lambda>(k, v). (lower k, Some v)) (os_environ w)))
      in case env_file src of
           None \<Rightarrow> Inr vars
         | Some file \<Rightarrow>
             (case path_node w file of
                Some (RegularFile _) \<Rightarrow>
                  (case read_env_file w file (env_file_encoding src) (case_sensitive src) of
                     Inl e \<Rightarrow> Inl e
                   | Inr file_vars \<Rightarrow> Inr (dict_union file_vars vars))
              | _ \<Rightarrow> Inr vars))"

text \<open>\<open>env_vars.get(env_name)\<close>: \<open>None\<close> for a missing key and for a stored \<open>None\<close>.\<close>

definition env_get :: "env_vars \<Rightarrow> string \<Rightarrow> string option" where
  "env_get vars n = (case map_of vars n of Some (Some v) \<Rightarrow> Some v | _ \<Rightarrow> None)"

text \<open>The lookup loop with its \<open>break\<close>; it leaves \<open>env_name\<close> at the name that was
  found, or at the last candidate.\<close>

fun find_env :: "env_vars \<Rightarrow> string list \<Rightarrow> string \<Rightarrow> string \<times> string option" where
  "find_env vars [] env_name = (env_name, None)"
| "find_env vars (n # ns) env_name =
     (case env_get vars n of Some v \<Rightarrow> (n, Some v) | None \<Rightarrow> find_env vars ns n)"

text \<open>\<open>groups[0].lower()\<close> for one group, \<open>groups[1].lower()\<close> otherwise.\<close>

definition group_at :: "string option list \<Rightarrow> nat \<Rightarrow> error + string" where
  "group_at groups i =
     (if i < length groups
      then (case groups ! i of None \<Rightarrow> Inl AttributeError | Some g \<Rightarrow> Inr (lower g))
      else Inl IndexError)"

definition group_key :: "string option list \<Rightarrow> error + string" where
  "group_key groups = (if length groups = 1 then group_at groups 0 else group_at groups 1)"

fun match_scan :: "world \<Rightarrow> string \<Rightarrow> string \<Rightarrow> env_vars \<Rightarrow> mapping \<Rightarrow> error + mapping" where
  "match_scan w pattern alias [] d = Inr d"
| "match_scan w pattern alias ((k, v) # rest) d =
     (case re_fullmatch w pattern k of
        None \<Rightarrow> match_scan w pattern alias rest d
      | Some groups \<Rightarrow>
          (let d1 = (if map_of d alias = None then dict_set alias (VDict []) d else d)
           in case group_key groups of
                Inl e \<Rightarrow> Inl e
              | Inr key \<Rightarrow>
                  (case map_of d1 alias of
                     Some (VDict sub) \<Rightarrow>
                       match_scan w pattern alias rest
                         (dict_set alias (VDict (dict_set key (opt_val v) sub)) d1)
                   | _ \<Rightarrow> Inl TypeError)))"

text \<open>The candidate names of a field: \<open>_get_source_names\<close> under the source's case
  transform, each behind the prefix when one is set.\<close>

definition env_names_of :: "env_source \<Rightarrow> field \<Rightarrow> string list" where
  "env_names_of src f =
     (let xform = (if \<not> case_sensitive src then lower else (\<lambda>x. x));
          env_names = get_source_names f (Some xform)
      in case env_prefix src of
           None \<Rightarrow> env_names
         | Some pre \<Rightarrow> if pre = [] then env_names else map (\<lambda>name. pre @ name) env_names)"

text \<open>The body of the loop over the fields, on the mapping \<open>d\<close> built so far. After a
  tolerated decoding failure \<open>env_val\<close> still holds the raw text, which is not a
  \<open>dict\<close>, so the branch \<open>d[field.alias] = env_val\<close> stores it.\<close>

definition env_field :: "env_source \<Rightarrow> world \<Rightarrow> model \<Rightarrow> env_vars \<Rightarrow> field \<Rightarrow> mapping \<Rightarrow> error + mapping" where
  "env_field src w m vars f d =
     (case (case extra_matchfull f of None \<Rightarrow> None | Some p \<Rightarrow> if p = [] then None else Some p) of
        Some pattern \<Rightarrow> match_scan w pattern (field_alias f) vars d
      | None \<Rightarrow>
          (let env_names = env_names_of src f;
               (env_name, env_val) = find_env vars env_names [];
               (complex, allow_json_failure) = field_is_complex f
           in if complex then
                (case env_val of
                   None \<Rightarrow>
                     (case explode_env_vars vars env_names (env_nested_delimiter src) of
                        Inl e \<Rightarrow> Inl e
                      | Inr env_val_built \<Rightarrow>
                          if env_val_built \<noteq> [] then Inr (dict_set (field_alias f) (VDict env_val_built) d)
                          else Inr d)
                 | Some raw \<Rightarrow>
                     (case json_loads m raw of
                        None \<Rightarrow>
                          if \<not> allow_json_failure then Inl (JsonError env_name)
                          else Inr (dict_set (field_alias f) (VStr raw) d)
                      | Some (VDict decoded) \<Rightarrow>
                          (case explode_env_vars vars env_names (env_nested_delimiter src) of
                             Inl e \<Rightarrow> Inl e
                           | Inr exploded \<Rightarrow>
                               Inr (dict_set (field_alias f) (VDict (deep_update decoded exploded)) d))
                      | Some decoded \<Rightarrow> Inr (dict_set (field_alias f) decoded d)))
              else (case env_val of
                      None \<Rightarrow> Inr d
                    | Some raw \<Rightarrow> Inr (dict_set (field_alias f) (VStr raw) d))))"

fun env_fields :: "env_source \<Rightarrow> world \<Rightarrow> model \<Rightarrow> env_vars \<Rightarrow> field list \<Rightarrow> mapping \<Rightarrow> error + mapping" where
  "env_fields src w m vars [] d = Inr d"
| "env_fields src w m vars (f # fs) d =
     (case env_field src w m vars f d of
        Inl e \<Rightarrow> Inl e
      | Inr d' \<Rightarrow> env_fields src w m vars fs d')"

definition EnvSource_call :: "env_source \<Rightarrow> world \<Rightarrow> model \<Rightarrow> error + mapping" where
  "EnvSource_call src w m =
     (case load_env_vars src w of
        Inl e \<Rightarrow> Inl e
      | Inr vars \<Rightarrow> env_fields src w m vars (model_fields m) [])"

section \<open>SecretsSource\<close>

record secrets_source =
  secrets_dir :: "string option"
  secrets_case_sensitive :: bool

definition SecretsSource_init :: "string option \<Rightarrow> bool option \<Rightarrow> secrets_source" where
  "SecretsSource_init dir cs =
     \<lparr>secrets_dir = dir, secrets_case_sensitive = (case cs of None \<Rightarrow> False | Some b \<Rightarrow> b)\<rparr>"

datatype warning = DirectoryMissing string | NotARegularFile string string

text \<open>The loop over one field's candidate names. It returns the warnings emitted so far
  with the result, since a warning stays emitted when a later step raises. Reading the
  file is outside the \<open>try\<close>, so its exception leaves the call as it is.\<close>

fun secret_names ::
  "world \<Rightarrow> model \<Rightarrow> string \<Rightarrow> field \<Rightarrow> string list \<Rightarrow> warning list \<Rightarrow> mapping \<Rightarrow> warning list \<times> (error + mapping)" where
  "secret_names w m dir f [] ws secrets = (ws, Inr secrets)"
| "secret_names w m dir f (env_name # rest) ws secrets =
     (case child_node w dir env_name of
        Some (RegularFile (Inl e)) \<Rightarrow> (ws, Inl (ReadError e env_name))
      | Some (RegularFile (Inr content)) \<Rightarrow>
          (let secret_value = strip content
           in if is_complex f then
                (case json_loads m secret_value of
                   None \<Rightarrow> (ws, Inl (JsonError env_name))
                 | Some decoded \<Rightarrow> secret_names w m dir f rest ws (dict_set (field_alias f) decoded secrets))
              else secret_names w m dir f rest ws (dict_set (field_alias f) (VStr secret_value) secrets))
      | Some _ \<Rightarrow> secret_names w m dir f rest (ws @ [NotARegularFile dir env_name]) secrets
      | None \<Rightarrow> secret_names w m dir f rest ws secrets)"

fun secret_fields ::
  "secrets_source \<Rightarrow> world \<Rightarrow> model \<Rightarrow> string \<Rightarrow> field list \<Rightarrow> warning list \<Rightarrow> mapping \<Rightarrow> warning list \<times> (error + mapping)" where
  "secret_fields src w m dir [] ws secrets = (ws, Inr secrets)"
| "secret_fields src w m dir (f # fs) ws secrets =
     (let xform = (if \<not> secrets_case_sensitive src then Some lower else None);
          env_names = get_source_names f xform
      in case secret_names w m dir f env_names ws secrets of
           (ws', Inl e) \<Rightarrow> (ws', Inl e)
         | (ws', Inr secrets') \<Rightarrow> secret_fields src w m dir fs ws' secrets')"

definition SecretsSource_call :: "secrets_source \<Rightarrow> world \<Rightarrow> model \<Rightarrow> warning list \<times> (error + mapping)" where
  "SecretsSource_call src w m =
     (case secrets_dir src of
        None \<Rightarrow> ([], Inr [])
      | Some dir \<Rightarrow>
          (case path_node w dir of
             None \<Rightarrow> ([DirectoryMissing dir], Inr [])
           | Some Directory \<Rightarrow> secret_fields src w m dir (model_fields m) [] []
           | Some _ \<Rightarrow> ([], Inl (NotADirectory dir))))"

section \<open>IniFileSource\<close>

record ini_source =
  ini_file :: "string option"
  ini_file_encoding :: "string option"
  ini_default_section :: "string option"
  ini_case_sensitive :: bool

definition IniFileSource_init ::
  "string option \<Rightarrow> string option \<Rightarrow> string option \<Rightarrow> bool option \<Rightarrow> ini_source" where
  "IniFileSource_init file encoding section cs =
     \<lparr>ini_file = file, ini_file_encoding = encoding, ini_default_section = section,
      ini_case_sensitive = (case cs of None \<Rightarrow> False | Some b \<Rightarrow> b)\<rparr>"

text \<open>The section and key a field is looked up under.\<close>

definition ini_section_of :: "ini_source \<Rightarrow> string \<Rightarrow> field \<Rightarrow> string" where
  "ini_section_of src default_section f =
     (let section = (case extra_ini_section f of None \<Rightarrow> default_section | Some s \<Rightarrow> s)
      in if \<not> ini_case_sensitive src then lower section else section)"

definition ini_key_of :: "ini_source \<Rightarrow> field \<Rightarrow> string" where
  "ini_key_of src f =
     (let key = (case extra_ini f of None \<Rightarrow> field_name f | Some k \<Rightarrow> k)
      in if \<not> ini_case_sensitive src then lower key else key)"

fun ini_fields :: "ini_source \<Rightarrow> ini_doc \<Rightarrow> string \<Rightarrow> field list \<Rightarrow> mapping \<Rightarrow> mapping" where
  "ini_fields src parser default_section [] result = result"
| "ini_fields src parser default_section (f # fs) result =
     (case ini_get parser (ini_section_of src default_section f) (ini_key_of src f) of
        None \<Rightarrow> ini_fields src parser default_section fs result
      | Some v \<Rightarrow>
          if v \<noteq> [] then ini_fields src parser default_section fs (dict_set (field_alias f) (VStr v) result)
          else ini_fields src parser default_section fs result)"

definition IniFileSource_call :: "ini_source \<Rightarrow> world \<Rightarrow> model \<Rightarrow> error + mapping" where
  "IniFileSource_call src w m =
     (case ini_file src of
        None \<Rightarrow> Inr []
      | Some file \<Rightarrow>
          (case path_node w file of
             None \<Rightarrow> Inl (IniMissing file)
           | Some (RegularFile _) \<Rightarrow>
               (case read_ini w file (ini_file_encoding src) of
                  Inl e \<Rightarrow> Inl e
                | Inr parser \<Rightarrow>
                    (case ini_default_section src of
                       None \<Rightarrow> Inr (ini_fields src parser ''DEFAULT'' (model_fields m) [])
                     | Some section \<Rightarrow>
                         if section \<notin> set (ini_sections parser) then Inl (IniNoSection section)
                         else Inr (ini_fields src parser section (model_fields m) [])))
           | Some _ \<Rightarrow> Inl (IniNotAFile file)))"

section \<open>The source registry\<close>

text \<open>
  A factory is a registered callable (the three built-in classes, or one a caller
  registers, known by a label) or \<open>functools.partial\<close> of a factory with keyword options.
  The module holds two dictionaries: \<open>__sources__\<close>, from source name to the factory as
  registered, and \<open>__registry__\<close>, from environment name to that environment's table.
\<close>

datatype base_factory = EnvSourceF | IniFileSourceF | SecretsSourceF | UserF string

datatype factory = Plain base_factory | Partial factory "(string \<times> pyval) list"

record registry =
  reg_sources :: "(string \<times> factory) list"
  reg_registry :: "(string \<times> (string \<times> factory) list) list"

definition builtin_sources :: "(string \<times> factory) list" where
  "builtin_sources =
     [(''env'', Plain EnvSourceF), (''ini'', Plain IniFileSourceF), (''secrets'', Plain SecretsSourceF)]"

definition initial_registry :: registry where
  "initial_registry = \<lparr>reg_sources = builtin_sources, reg_registry = [(''default'', builtin_sources)]\<rparr>"

text \<open>An object of class \<open>Source\<close>.\<close>

record source_handle =
  handle_name :: string
  handle_factory :: factory

text \<open>
  \<open>__registry__[env][name] = partial(factory, **options)\<close>: reading \<open>__registry__[env]\<close>
  raises \<open>KeyError\<close> when the environment has no table. Every operation returns the
  registry it leaves behind next to its result, since the module state outlives a raise.
\<close>

definition registry_bind :: "string \<Rightarrow> string \<Rightarrow> factory \<Rightarrow> registry \<Rightarrow> registry \<times> (error + unit)" where
  "registry_bind env name fac st =
     (case map_of (reg_registry st) env of
        None \<Rightarrow> (st, Inl (KeyError env))
      | Some table \<Rightarrow>
          (st\<lparr>reg_registry := dict_set env (dict_set name fac table) (reg_registry st)\<rparr>, Inr ()))"

definition Source_configure ::
  "source_handle \<Rightarrow> string \<Rightarrow> (string \<times> pyval) list \<Rightarrow> registry \<Rightarrow> registry \<times> (error + source_handle)" where
  "Source_configure self env options st =
     (case registry_bind env (handle_name self) (Partial (handle_factory self) options) st of
        (st', Inl e) \<Rightarrow> (st', Inl e)
      | (st', Inr _) \<Rightarrow> (st', Inr self))"

fun configure_each ::
  "source_handle \<Rightarrow> (string \<times> (string \<times> pyval) list) list \<Rightarrow> registry \<Rightarrow> registry \<times> (error + unit)" where
  "configure_each source [] st = (st, Inr ())"
| "configure_each source ((env, options) # rest) st =
     (case Source_configure source env options st of
        (st', Inl e) \<Rightarrow> (st', Inl e)
      | (st', Inr _) \<Rightarrow> configure_each source rest st')"

definition register ::
  "factory \<Rightarrow> string \<Rightarrow> (string \<times> (string \<times> pyval) list) list option \<Rightarrow> registry
     \<Rightarrow> registry \<times> (error + source_handle)" where
  "register fac name configuration st =
     (if map_of (reg_sources st) name \<noteq> None then (st, Inl (ValueError ''already registered''))
      else
        (let st1 = st\<lparr>reg_sources := dict_set name fac (reg_sources st)\<rparr>
         in case registry_bind ''default'' name fac st1 of
              (st2, Inl e) \<Rightarrow> (st2, Inl e)
            | (st2, Inr _) \<Rightarrow>
                (let source = \<lparr>handle_name = name, handle_factory = fac\<rparr>
                 in case configuration of
                      None \<Rightarrow> (st2, Inr source)
                    | Some conf \<Rightarrow>
                        (case configure_each source conf st2 of
                           (st3, Inl e) \<Rightarrow> (st3, Inl e)
                         | (st3, Inr _) \<Rightarrow> (st3, Inr source)))))"

definition configure ::
  "string \<Rightarrow> string \<Rightarrow> (string \<times> pyval) list \<Rightarrow> registry \<Rightarrow> registry \<times> (error + source_handle)" where
  "configure name env options st =
     (case map_of (reg_sources st) name of
        None \<Rightarrow> (st, Inl (ValueError ''not registered''))
      | Some fac \<Rightarrow>
          (case registry_bind env name (Partial fac options) st of
             (st', Inl e) \<Rightarrow> (st', Inl e)
           | (st', Inr _) \<Rightarrow> (st', Inr \<lparr>handle_name = name, handle_factory = fac\<rparr>)))"

section \<open>The resolution pipeline\<close>

text \<open>A source instance, and what calling it with the model returns.\<close>

datatype source =
    InitSource mapping
  | EnvSource env_source
  | SecretsSource secrets_source
  | IniFileSource ini_source
  | CustomSource "model \<Rightarrow> error + mapping"

fun call_source :: "world \<Rightarrow> model \<Rightarrow> source \<Rightarrow> error + mapping" where
  "call_source w m (InitSource values) = Inr values"
| "call_source w m (EnvSource src) = EnvSource_call src w m"
| "call_source w m (SecretsSource src) = snd (SecretsSource_call src w m)"
| "call_source w m (IniFileSource src) = IniFileSource_call src w m"
| "call_source w m (CustomSource f) = f m"

text \<open>
  What reflection gives of a registered callable: its signature (the names of
  \<open>sig.parameters\<close>, and whether a \<open>**kwargs\<close> parameter takes any other keyword), where
  \<open>inspect.signature\<close> does not raise, and the instance a call with keyword arguments
  constructs (or the exception it raises).
\<close>

record py_signature =
  sig_names :: "string list"
  sig_var_keyword :: bool

record runtime =
  rt_signature :: "base_factory \<Rightarrow> error + py_signature"
  rt_construct :: "base_factory \<Rightarrow> (string \<times> pyval) list \<Rightarrow> error + source"

text \<open>
  \<open>inspect.signature\<close> of a partial binds the partial's keywords to the wrapped
  signature and raises \<open>ValueError\<close> when one of them is not accepted; otherwise the
  partial keeps the names. In a call, the partial's keywords yield to the call's.
\<close>

fun signature_of :: "runtime \<Rightarrow> factory \<Rightarrow> error + py_signature" where
  "signature_of rt (Plain b) = rt_signature rt b"
| "signature_of rt (Partial f options) =
     (case signature_of rt f of
        Inl e \<Rightarrow> Inl e
      | Inr sg \<Rightarrow>
          if sig_var_keyword sg \<or> list_all (\<lambda>(n, v). n \<in> set (sig_names sg)) options then Inr sg
          else Inl (ValueError ''partial object has incorrect arguments''))"

fun call_factory :: "runtime \<Rightarrow> factory \<Rightarrow> (string \<times> pyval) list \<Rightarrow> error + source" where
  "call_factory rt (Plain b) kwargs = rt_construct rt b kwargs"
| "call_factory rt (Partial f options) kwargs = call_factory rt f (dict_union options kwargs)"

datatype server_env = EnvCallable string | EnvStr string | EnvOther

text \<open>The class \<open>Config\<close>: the configured source names, \<open>server_env\<close> (a callable, with
  the text of what it returns, or a string) and all its members as
  \<open>inspect.getmembers\<close> lists them.\<close>

record config =
  cfg_sources :: "string list"
  cfg_server_env :: server_env
  cfg_members :: "(string \<times> pyval) list"

fun instantiate_sources ::
  "runtime \<Rightarrow> (string \<times> factory) list \<Rightarrow> (string \<times> pyval) list \<Rightarrow> string list \<Rightarrow> error + source list" where
  "instantiate_sources rt sources options [] = Inr []"
| "instantiate_sources rt sources options (s # rest) =
     (case map_of sources s of
        None \<Rightarrow> Inl (KeyError s)
      | Some fac \<Rightarrow>
          (case signature_of rt fac of
             Inl e \<Rightarrow> Inl e
           | Inr sg \<Rightarrow>
               (let bound = filter (\<lambda>(n, v). n \<in> set (sig_names sg)) options
                in case call_factory rt fac bound of
                     Inl e \<Rightarrow> Inl e
                   | Inr inst \<Rightarrow>
                       (case instantiate_sources rt sources options rest of
                          Inl e \<Rightarrow> Inl e
                        | Inr insts \<Rightarrow> Inr (inst # insts)))))"

fun call_sources :: "world \<Rightarrow> model \<Rightarrow> source list \<Rightarrow> error + mapping list" where
  "call_sources w m [] = Inr []"
| "call_sources w m (s # rest) =
     (case call_source w m s of
        Inl e \<Rightarrow> Inl e
      | Inr r \<Rightarrow>
          (case call_sources w m rest of
             Inl e \<Rightarrow> Inl e
           | Inr rs \<Rightarrow> Inr (r # rs)))"

definition active_sources :: "registry \<Rightarrow> config \<Rightarrow> string \<times> (string \<times> factory) list" where
  "active_sources reg cfg =
     (let default_registry = (case map_of (reg_registry reg) ''default'' of None \<Rightarrow> [] | Some t \<Rightarrow> t);
          server_env =
            (case cfg_server_env cfg of
               EnvCallable s \<Rightarrow> lower s
             | EnvStr s \<Rightarrow> lower s
             | EnvOther \<Rightarrow> ''default'');
          env_sources = (case map_of (reg_registry reg) server_env of None \<Rightarrow> [] | Some t \<Rightarrow> t)
      in (server_env, dict_union default_registry env_sources))"

text \<open>The option bag: the public members of \<open>Config\<close>, with \<open>server_env\<close> set to the
  active environment.\<close>

definition resolution_options :: "config \<Rightarrow> string \<Rightarrow> (string \<times> pyval) list" where
  "resolution_options cfg server_env =
     dict_set ''server_env'' (VStr server_env)
       (filter (\<lambda>(n, v). \<not> startswith n ''_'') (cfg_members cfg))"

definition build_values :: "runtime \<Rightarrow> world \<Rightarrow> registry \<Rightarrow> config \<Rightarrow> model \<Rightarrow> mapping \<Rightarrow> error + mapping" where
  "build_values rt w reg cfg m values =
     (let (server_env, sources) = active_sources reg cfg;
          unk = find (\<lambda>x. map_of sources x = None) (cfg_sources cfg)
      in if (case unk of None \<Rightarrow> False | Some u \<Rightarrow> u \<noteq> []) then Inl (ValueError ''source not found'')
         else
           (let options = resolution_options cfg server_env
            in case instantiate_sources rt sources options (cfg_sources cfg) of
                 Inl e \<Rightarrow> Inl e
               | Inr insts \<Rightarrow>
                   (case call_sources w m (InitSource values # insts) of
                      Inl e \<Rightarrow> Inl e
                    | Inr results \<Rightarrow> deep_update_all (rev results))))"

section \<open>DelimitedList\<close>

text \<open>
  The list an instance holds. The constructor's default \<open>value = []\<close> is one list
  object, made once and shared by every instance built without a value; a value that is
  a list is held as it is, any other iterable is copied. The content of the shared
  object is state, passed as \<open>shared\<close> to whatever reads or writes an instance's list.
\<close>

datatype list_ref = DefaultList | OwnList "ustring list"

record delimited_list =
  dl_delimiter :: ustring
  dl_list :: list_ref

definition DelimitedList_init :: "ustring list option \<Rightarrow> ustring option \<Rightarrow> delimited_list" where
  "DelimitedList_init v delimiter =
     \<lparr>dl_delimiter = (case delimiter of None \<Rightarrow> [44] | Some d \<Rightarrow> d),
      dl_list = (case v of None \<Rightarrow> DefaultList | Some xs \<Rightarrow> OwnList xs)\<rparr>"

definition elements :: "ustring list \<Rightarrow> delimited_list \<Rightarrow> ustring list" where
  "elements shared dl = (case dl_list dl of DefaultList \<Rightarrow> shared | OwnList xs \<Rightarrow> xs)"

text \<open>\<open>list.insert(index, value)\<close>, and \<open>DelimitedList.insert\<close>, which writes the shared
  object when the instance holds it.\<close>

definition list_insert :: "int \<Rightarrow> 'a \<Rightarrow> 'a list \<Rightarrow> 'a list" where
  "list_insert index x xs =
     (let n = int (length xs);
          i = (if index < 0 then max 0 (index + n) else min index n)
      in take (nat i) xs @ x # drop (nat i) xs)"

definition insert_item :: "int \<Rightarrow> ustring \<Rightarrow> ustring list \<Rightarrow> delimited_list \<Rightarrow> ustring list \<times> delimited_list" where
  "insert_item index x shared dl =
     (case dl_list dl of
        DefaultList \<Rightarrow> (list_insert index x shared, dl)
      | OwnList xs \<Rightarrow> (shared, dl\<lparr>dl_list := OwnList (list_insert index x xs)\<rparr>))"

text \<open>\<open>Counter(v)\<close>: each code point with its number of occurrences, in order of first
  occurrence. \<open>most_common()\<close> sorts by count, largest first; the sort is stable.\<close>

definition counter :: "ustring \<Rightarrow> (nat \<times> nat) list" where
  "counter v = fold (\<lambda>c d. dict_set c (case map_of d c of None \<Rightarrow> 1 | Some n \<Rightarrow> n + 1) d) v []"

definition most_common :: "(nat \<times> nat) list \<Rightarrow> (nat \<times> nat) list" where
  "most_common d = sort_key (\<lambda>(k, n). - int n) d"

text \<open>The candidates \<open>,\<close> (44), newline (10), \<open>;\<close> (59) and \<open>&\<close> (38).\<close>

definition order :: "nat list" where
  "order = [44, 10, 59, 38]"

definition separator :: "ustring \<Rightarrow> ustring" where
  "separator v =
     (case filter (\<lambda>k. k \<in> set order) (map fst (most_common (counter v))) of
        [] \<Rightarrow> [44]
      | k # _ \<Rightarrow> [k])"

text \<open>\<open>validate\<close> on a string, and \<open>__str__\<close>. The empty string gives \<open>cls()\<close>, an
  instance on the shared default list; any other string gives an instance on a new list.\<close>

definition validate :: "ustring \<Rightarrow> error + delimited_list" where
  "validate v =
     (if v = [] then Inr (DelimitedList_init None None)
      else case py_split v (separator v) of
             Inl e \<Rightarrow> Inl e
           | Inr parts \<Rightarrow> Inr (DelimitedList_init (Some (map strip_text parts)) (Some (separator v))))"

definition to_str :: "ustring list \<Rightarrow> delimited_list \<Rightarrow> ustring" where
  "to_str shared dl = py_join (dl_delimiter dl) (elements shared dl)"

text \<open>The code points of a text written with characters below 256.\<close>

definition text_of :: "string \<Rightarrow> ustring" where
  "text_of s = map of_char s"

section \<open>Concrete inputs\<close>

text \<open>Small schemas, environments and registries on which the theorems below are run.\<close>

definition plain_field :: "string \<Rightarrow> field" where
  "plain_field n =
     \<lparr>field_name = n, field_alias = n, extra_env = None, extra_matchfull = None,
      extra_ini = None, extra_ini_section = None, is_complex = False, is_union = False,
      sub_fields = []\<rparr>"

text \<open>An outside world with nothing in it, and a decoder that knows two texts:
  \<open>{"host": "h1"}\<close> decodes to a dictionary, anything else fails.\<close>

definition empty_world :: world where
  "empty_world =
     \<lparr>os_environ = [], dotenv_values = None, re_fullmatch = (\<lambda>pattern k. None),
      path_node = (\<lambda>p. None), child_node = (\<lambda>dir n. None),
      read_ini = (\<lambda>p enc. Inl (IniMissing p))\<rparr>"

definition sample_json_loads :: "string \<Rightarrow> pyval option" where
  "sample_json_loads s =
     (if s = ''{\"host\": \"h1\"}'' then Some (VDict [(''host'', VStr ''h1'')]) else None)"

definition sample_model :: "field list \<Rightarrow> model" where
  "sample_model fs = \<lparr>model_fields = fs, json_loads = sample_json_loads\<rparr>"

text \<open>Four caller-registered sources: \<open>A\<close> gives \<open>x = 1\<close>, \<open>B\<close> gives \<open>x = 2\<close>,
  \<open>C\<close> gives \<open>x = {a: 1}\<close> and \<open>D\<close> gives \<open>x = {b: 2}\<close>.\<close>

definition source_A :: source where
  "source_A = CustomSource (\<lambda>m. Inr [(''x'', VInt 1)])"

definition source_B :: source where
  "source_B = CustomSource (\<lambda>m. Inr [(''x'', VInt 2)])"

definition source_C :: source where
  "source_C = CustomSource (\<lambda>m. Inr [(''x'', VDict [(''a'', VInt 1)])])"

definition source_D :: source where
  "source_D = CustomSource (\<lambda>m. Inr [(''x'', VDict [(''b'', VInt 2)])])"

text \<open>
  A runtime for the three built-in classes and the four sources above. The classes take
  the keywords of their constructors and no other (\<open>TypeError\<close>); \<open>case_sensitive\<close> is
  read by its truthiness, as the classes do; a string option holds a string or \<open>None\<close>,
  and this runtime refuses any other value. The four sources take no argument.
\<close>

definition kw_str :: "(string \<times> pyval) list \<Rightarrow> string \<Rightarrow> string option" where
  "kw_str kwargs n = (case map_of kwargs n of Some (VStr s) \<Rightarrow> Some s | _ \<Rightarrow> None)"

definition kw_bool :: "(string \<times> pyval) list \<Rightarrow> string \<Rightarrow> bool option" where
  "kw_bool kwargs n = (case map_of kwargs n of None \<Rightarrow> None | Some v \<Rightarrow> Some (truthy v))"

definition kw_accepted :: "string list \<Rightarrow> (string \<times> pyval) list \<Rightarrow> bool" where
  "kw_accepted names kwargs =
     list_all (\<lambda>(n, v). n \<in> set names \<and>
                 (n = ''case_sensitive'' \<or> (case v of VStr s \<Rightarrow> True | VNone \<Rightarrow> True | _ \<Rightarrow> False)))
       kwargs"

definition builtin_names :: "base_factory \<Rightarrow> string list" where
  "builtin_names b =
     (case b of
        EnvSourceF \<Rightarrow> [''env_file'', ''env_file_encoding'', ''env_nested_delimiter'', ''env_prefix'', ''case_sensitive'']
      | IniFileSourceF \<Rightarrow> [''ini_file'', ''ini_file_encoding'', ''ini_default_section'', ''case_sensitive'']
      | SecretsSourceF \<Rightarrow> [''secrets_dir'', ''case_sensitive'']
      | UserF n \<Rightarrow> [])"

definition sample_runtime :: runtime where
  "sample_runtime =
     \<lparr>rt_signature = (\<lambda>b. Inr \<lparr>sig_names = builtin_names b, sig_var_keyword = False\<rparr>),
      rt_construct = (\<lambda>b kwargs.
        if \<not> kw_accepted (builtin_names b) kwargs then Inl TypeError
        else case b of
          EnvSourceF \<Rightarrow>
            Inr (EnvSource (EnvSource_init (kw_str kwargs ''env_file'') (kw_str kwargs ''env_file_encoding'')
                   (kw_str kwargs ''env_nested_delimiter'') (kw_str kwargs ''env_prefix'')
                   (kw_bool kwargs ''case_sensitive'')))
        | IniFileSourceF \<Rightarrow>
            Inr (IniFileSource (IniFileSource_init (kw_str kwargs ''ini_file'') (kw_str kwargs ''ini_file_encoding'')
                   (kw_str kwargs ''ini_default_section'') (kw_bool kwargs ''case_sensitive'')))
        | SecretsSourceF \<Rightarrow>
            Inr (SecretsSource (SecretsSource_init (kw_str kwargs ''secrets_dir'') (kw_bool kwargs ''case_sensitive'')))
        | UserF n \<Rightarrow>
            if n = ''A'' then Inr source_A
            else if n = ''B'' then Inr source_B
            else if n = ''C'' then Inr source_C
            else if n = ''D'' then Inr source_D
            else Inl TypeError)\<rparr>"

text \<open>The registry after \<open>register(A, "a")\<close>, \<open>register(B, "b")\<close>, \<open>register(C, "c")\<close> and
  \<open>register(D, "d")\<close>.\<close>

definition sample_registry :: registry where
  "sample_registry =
     fst (register (Plain (UserF ''D'')) ''d'' None
       (fst (register (Plain (UserF ''C'')) ''c'' None
         (fst (register (Plain (UserF ''B'')) ''b'' None
           (fst (register (Plain (UserF ''A'')) ''a'' None initial_registry)))))))"

definition sample_config :: "string list \<Rightarrow> config" where
  "sample_config names =
     \<lparr>cfg_sources = names, cfg_server_env = EnvStr ''local'',
      cfg_members = [(''case_sensitive'', VBool False), (''env_file'', VStr ''.env.local'')]\<rparr>"

text \<open>A process environment holding \<open>DB_HOST=localhost\<close>.\<close>

definition upper_world :: world where
  "upper_world = empty_world\<lparr>os_environ := [(''DB_HOST'', ''localhost'')]\<rparr>"

text \<open>A process environment holding \<open>db={"host": "h1"}\<close> and \<open>db_port=5432\<close>, and a
  complex field \<open>db\<close>.\<close>

definition db_world :: world where
  "db_world = empty_world\<lparr>os_environ := [(''db'', ''{\"host\": \"h1\"}''), (''db_port'', ''5432'')]\<rparr>"

definition complex_field :: "string \<Rightarrow> field" where
  "complex_field n = (plain_field n)\<lparr>is_complex := True\<rparr>"

text \<open>A secrets directory \<open>/run/secrets\<close> with the regular files \<open>api_key\<close> (content
  \<open>first\<close>) and \<open>apikey\<close> (content \<open>second\<close>), and a field whose \<open>env\<close> names are
  \<open>api_key\<close> and \<open>apikey\<close>, in this order.\<close>

definition secrets_world :: world where
  "secrets_world =
     empty_world\<lparr>
       path_node := (\<lambda>p. if p = ''/run/secrets'' then Some Directory else None),
       child_node := (\<lambda>dir n.
         if dir = ''/run/secrets'' \<and> n = ''api_key'' then Some (RegularFile (Inr ''first''))
         else if dir = ''/run/secrets'' \<and> n = ''apikey'' then Some (RegularFile (Inr ''second''))
         else None)\<rparr>"

definition api_key_field :: field where
  "api_key_field = (plain_field ''api_key'')\<lparr>extra_env := Some (NameList [''api_key'', ''apikey''])\<rparr>"

text \<open>A field of type \<open>Union[str, Dict]\<close>, and an environment holding \<open>db=not json\<close>
  next to \<open>db__port=5432\<close>.\<close>

definition union_field :: "string \<Rightarrow> field" where
  "union_field n = (plain_field n)\<lparr>is_union := True, sub_fields := [False, True]\<rparr>"

definition union_vars :: env_vars where
  "union_vars = [(''db'', Some ''not json''), (''db__port'', Some ''5432'')]"

definition union_world :: world where
  "union_world = empty_world\<lparr>os_environ := [(''db'', ''not json''), (''db__port'', ''5432'')]\<rparr>"




text \<open>An INI file \<open>settings.ini\<close> with the section \<open>app\<close>, where \<open>host\<close> is present with
  an empty value and \<open>port\<close> is \<open>8080\<close>.\<close>

definition sample_parser :: ini_doc where
  "sample_parser =
     \<lparr>ini_sections = [''app''],
      ini_get = (\<lambda>section key.
        if section = ''app'' \<and> key = ''host'' then Some []
        else if section = ''app'' \<and> key = ''port'' then Some ''8080''
        else None)\<rparr>"

definition ini_world :: world where
  "ini_world =
     empty_world\<lparr>
       path_node := (\<lambda>p. if p = ''settings.ini'' then Some (RegularFile (Inr ''[app]'')) else None),
       read_ini := (\<lambda>p enc. Inr sample_parser)\<rparr>"


text \<open>What the sources after position \<open>i\<close> merge to at a key.\<close>

definition lower_value :: "mapping list \<Rightarrow> nat \<Rightarrow> string \<Rightarrow> pyval option" where
  "lower_value rs i k =
     (case deep_update_all (rev (drop (Suc i) rs)) of Inl e \<Rightarrow> None | Inr low \<Rightarrow> map_of low k)"

section \<open>Dictionaries and the deep merge\<close>

lemma map_of_dict_set: "map_of (dict_set k v m) = (map_of m)(k \<mapsto> v)"
  by (induction m) (auto simp: fun_eq_iff)

lemma keys_dict_set: "fst ` set (dict_set k v m) = insert k (fst ` set m)"
  by (induction m) auto

lemma distinct_dict_set: "distinct (map fst m) \<Longrightarrow> distinct (map fst (dict_set k v m))"
  by (induction m) (auto simp: keys_dict_set)

lemma deep_update_absent:
  "map_of u k = None \<Longrightarrow> map_of (deep_update m u) k = map_of m k"
proof (induction m u rule: deep_update.induct)
  case (1 m)
  then show ?case by simp
next
  case (2 m k' d' us)
  then show ?case
    by (auto simp: map_of_dict_set split: option.splits pyval.splits if_splits)
qed (auto simp: map_of_dict_set split: if_splits)

text \<open>The merged value at a key the updating mapping holds.\<close>

lemma deep_update_present:
  "distinct (map fst u) \<Longrightarrow> map_of u k = Some v \<Longrightarrow>
   map_of (deep_update m u) k =
     Some (case v of
             VDict d' \<Rightarrow> (case map_of m k of Some (VDict d) \<Rightarrow> VDict (deep_update d d') | _ \<Rightarrow> v)
           | _ \<Rightarrow> v)"
proof (induction m u rule: deep_update.induct)
  case (1 m)
  then show ?case by simp
next
  case (2 m k' d' us)
  show ?case
  proof (cases "k' = k")
    case True
    with 2 have v: "v = VDict d'" and absent: "map_of us k = None"
      by (auto simp: map_of_eq_None_iff)
    show ?thesis using True v absent
      by (auto simp: deep_update_absent map_of_dict_set split: option.splits pyval.splits)
  next
    case False
    with 2 show ?thesis
      by (auto simp: map_of_dict_set split: option.splits pyval.splits)
  qed
qed (auto simp: map_of_dict_set deep_update_absent map_of_eq_None_iff
       split: if_splits pyval.splits option.splits)

lemma foldl_deep_update_absent:
  "\<forall>r \<in> set us. map_of r k = None \<Longrightarrow> map_of (foldl deep_update m us) k = map_of m k"
  by (induction us arbitrary: m) (auto simp: deep_update_absent)

lemma merge_precedence:
  assumes i: "i < length rs"
    and v: "map_of (rs ! i) k = Some v"
    and before: "\<forall>j<i. map_of (rs ! j) k = None"
    and dist: "distinct (map fst (rs ! i))"
  shows "\<exists>merged. deep_update_all (rev rs) = Inr merged \<and>
           map_of merged k =
             Some (case v of
                     VDict d' \<Rightarrow>
                       (case lower_value rs i k of
                          Some (VDict d) \<Rightarrow> VDict (deep_update d d')
                        | _ \<Rightarrow> v)
                   | _ \<Rightarrow> v)"
proof -
  have split: "rev rs = rev (drop (Suc i) rs) @ (rs ! i) # rev (take i rs)"
    using i by (metis Cons_nth_drop_Suc append_take_drop_id rev.simps(2) rev_append
        append.assoc append_Cons append_Nil)
  have pre: "\<forall>r \<in> set (rev (take i rs)). map_of r k = None"
    using before i by (auto simp: in_set_conv_nth)
  show ?thesis
  proof (cases "rev (drop (Suc i) rs)")
    case Nil
    have "rev rs = (rs ! i) # rev (take i rs)"
      by (simp only: split Nil append_Nil)
    then have "deep_update_all (rev rs) = Inr (foldl deep_update (rs ! i) (rev (take i rs)))"
      by (simp only: deep_update_all_def list.case)
    moreover have "map_of (foldl deep_update (rs ! i) (rev (take i rs))) k = Some v"
      using pre v by (simp add: foldl_deep_update_absent)
    moreover have "lower_value rs i k = None"
      using Nil by (simp add: deep_update_all_def lower_value_def)
    ultimately show ?thesis by (auto split: pyval.splits)
  next
    case (Cons b us)
    define low where "low = foldl deep_update b us"
    have "rev rs = b # (us @ (rs ! i) # rev (take i rs))"
      by (simp only: split Cons append_Cons)
    then have all: "deep_update_all (rev rs) =
        Inr (foldl deep_update (deep_update low (rs ! i)) (rev (take i rs)))"
      by (simp only: deep_update_all_def list.case foldl_append foldl_Cons low_def)
    have lowdef: "lower_value rs i k = map_of low k"
      using Cons by (simp add: deep_update_all_def low_def lower_value_def)
    have "map_of (foldl deep_update (deep_update low (rs ! i)) (rev (take i rs))) k
          = map_of (deep_update low (rs ! i)) k"
      using pre by (simp add: foldl_deep_update_absent)
    also have "\<dots> = Some (case v of
             VDict d' \<Rightarrow> (case map_of low k of Some (VDict d) \<Rightarrow> VDict (deep_update d d') | _ \<Rightarrow> v)
           | _ \<Rightarrow> v)"
      using deep_update_present[OF dist v] .
    finally show ?thesis using all lowdef by (simp split: pyval.splits)
  qed
qed

lemma instantiate_sources_known:
  "instantiate_sources rt sources options names = Inr insts \<Longrightarrow>
   \<forall>s \<in> set names. map_of sources s \<noteq> None"
  by (induction names arbitrary: insts) (auto split: option.splits sum.splits)

section \<open>The resolution pipeline merges in reverse of invocation order\<close>

text \<open>
  Claim C1, as amended. When the configured sources are instantiated and every source,
  \<open>InitSource\<close> first, returns a mapping, \<open>_build_values\<close> returns the deep merge of the
  mappings in reverse of invocation order. For an alias \<open>k\<close>, let \<open>i\<close> be the first
  position whose mapping holds \<open>k\<close>, with value \<open>v\<close>. If \<open>v\<close> is not a mapping, the
  merged mapping holds \<open>v\<close> at \<open>k\<close>. If \<open>v\<close> is a mapping and the later sources merge to
  a mapping at \<open>k\<close>, the two are merged recursively, the earlier source's entries
  updating the later ones; otherwise the merged mapping holds \<open>v\<close>.
\<close>

theorem build_values_precedence:
  assumes act: "active_sources reg cfg = (server_env, sources)"
    and inst: "instantiate_sources rt sources (resolution_options cfg server_env) (cfg_sources cfg) = Inr insts"
    and calls: "call_sources w m (InitSource values # insts) = Inr rs"
    and i: "i < length rs"
    and v: "map_of (rs ! i) k = Some v"
    and before: "\<forall>j<i. map_of (rs ! j) k = None"
    and dist: "distinct (map fst (rs ! i))"
  shows "\<exists>merged. build_values rt w reg cfg m values = Inr merged \<and>
           deep_update_all (rev rs) = Inr merged \<and>
           (\<not> is_dict v \<longrightarrow> map_of merged k = Some v) \<and>
           (\<forall>d'. v = VDict d' \<longrightarrow>
              map_of merged k =
                Some (case lower_value rs i k of
                        Some (VDict d) \<Rightarrow> VDict (deep_update d d')
                      | _ \<Rightarrow> v))"
proof -
  have known: "find (\<lambda>x. map_of sources x = None) (cfg_sources cfg) = None"
    using instantiate_sources_known[OF inst] by (simp add: find_None_iff)
  have bv: "build_values rt w reg cfg m values = deep_update_all (rev rs)"
    using act inst calls known by (simp add: build_values_def)
  from merge_precedence[OF i v before dist] obtain merged where
    mg: "deep_update_all (rev rs) = Inr merged"
    and val: "map_of merged k =
             Some (case v of
                     VDict d' \<Rightarrow>
                       (case lower_value rs i k of
                          Some (VDict d) \<Rightarrow> VDict (deep_update d d')
                        | _ \<Rightarrow> v)
                   | _ \<Rightarrow> v)" by blast
  have scalar: "\<not> is_dict v \<longrightarrow> map_of merged k = Some v"
    using val by (cases v) auto
  have nested: "\<forall>d'. v = VDict d' \<longrightarrow>
              map_of merged k =
                Some (case lower_value rs i k of
                        Some (VDict d) \<Rightarrow> VDict (deep_update d d')
                      | _ \<Rightarrow> v)"
    using val by auto
  have "build_values rt w reg cfg m values = Inr merged"
    using bv mg by simp
  with mg scalar nested show ?thesis
    by (intro exI[of _ merged] conjI)
qed

theorem build_values_precedence_witness:
  "\<exists>merged. build_values sample_runtime empty_world sample_registry (sample_config [''a'', ''b''])
       (sample_model []) [] = Inr merged \<and> map_of merged ''x'' = Some (VInt 1)"
proof -
  have act: "active_sources sample_registry (sample_config [''a'', ''b'']) =
     (''local'', [(''env'', Plain EnvSourceF), (''ini'', Plain IniFileSourceF),
       (''secrets'', Plain SecretsSourceF), (''a'', Plain (UserF ''A'')),
       (''b'', Plain (UserF ''B'')), (''c'', Plain (UserF ''C'')), (''d'', Plain (UserF ''D''))])"
    by (simp add: active_sources_def sample_registry_def sample_config_def register_def
        initial_registry_def builtin_sources_def registry_bind_def dict_union_def dict_of_items_def
        lower_def lower_char_def)
  have inst: "instantiate_sources sample_runtime
      [(''env'', Plain EnvSourceF), (''ini'', Plain IniFileSourceF),
       (''secrets'', Plain SecretsSourceF), (''a'', Plain (UserF ''A'')),
       (''b'', Plain (UserF ''B'')), (''c'', Plain (UserF ''C'')), (''d'', Plain (UserF ''D''))]
      (resolution_options (sample_config [''a'', ''b'']) ''local'')
      (cfg_sources (sample_config [''a'', ''b''])) = Inr [source_A, source_B]"
    by (simp add: sample_config_def sample_runtime_def builtin_names_def kw_accepted_def)
  have calls: "call_sources empty_world (sample_model []) (InitSource [] # [source_A, source_B])
      = Inr [[], [(''x'', VInt 1)], [(''x'', VInt 2)]]"
    by (simp add: source_A_def source_B_def)
  show ?thesis
    using build_values_precedence[OF act inst calls, where i=1 and k="''x''" and v="VInt 1"]
    by (simp split: if_splits) blast
qed

text \<open>
  The claim as first stated fails where both sources hold a mapping at the alias: with
  sources \<open>[C, D]\<close>, \<open>C\<close> giving \<open>x = {a: 1}\<close> and \<open>D\<close> giving \<open>x = {b: 2}\<close>, the merged
  value of \<open>x\<close> is \<open>{b: 2, a: 1}\<close>, not the value \<open>{a: 1}\<close> of the earlier source.
\<close>

theorem build_values_nested_counterexample:
  "call_sources empty_world (sample_model []) [InitSource [], source_C, source_D]
     = Inr [[], [(''x'', VDict [(''a'', VInt 1)])], [(''x'', VDict [(''b'', VInt 2)])]] \<and>
   build_values sample_runtime empty_world sample_registry (sample_config [''c'', ''d''])
       (sample_model []) [] = Inr [(''x'', VDict [(''b'', VInt 2), (''a'', VInt 1)])]"
  by code_simp

section \<open>Exploding environment variables without a delimiter\<close>

lemma explode_loop_empty_delimiter:
  "(env_name, v) \<in> set vars \<Longrightarrow> \<exists>prefix \<in> set prefixes. startswith env_name prefix \<Longrightarrow>
   explode_loop [] prefixes vars result = Inl (ValueError ''empty separator'')"
proof (induction vars arbitrary: result)
  case Nil
  then show ?case by simp
next
  case (Cons p vars)
  obtain n x where p: "p = (n, x)" by (cases p)
  show ?case
  proof (cases "\<exists>prefix \<in> set prefixes. startswith n prefix")
    case True
    then show ?thesis using p by (simp add: py_split_def)
  next
    case False
    with Cons.prems p have "(env_name, v) \<in> set vars" by auto
    with Cons.IH Cons.prems(2) False p show ?thesis by simp
  qed
qed

text \<open>Without a delimiter, one variable whose name starts with a candidate name is
  enough for \<open>explode_env_vars\<close> to raise: \<open>str.split\<close> refuses the empty separator.\<close>

lemma explode_env_vars_no_delimiter_raises:
  assumes "(env_name, v) \<in> set vars" and "n \<in> set env_names" and "startswith env_name n"
  shows "explode_env_vars vars env_names None = Inl (ValueError ''empty separator'')"
  using assms explode_loop_empty_delimiter[of env_name v vars "map (\<lambda>env_name. env_name @ []) env_names" "[]"]
  by (auto simp: explode_env_vars_def)

theorem explode_env_vars_no_delimiter_raises_witness:
  "explode_env_vars [(''home'', Some ''/root''), (''db_port'', Some ''5432'')] [''db''] None
     = Inl (ValueError ''empty separator'')"
  using explode_env_vars_no_delimiter_raises[of "''db_port''" "Some ''5432''"
      "[(''home'', Some ''/root''), (''db_port'', Some ''5432'')]" "''db''" "[''db'']"]
  by (simp add: startswith_def)

text \<open>
  Claim C2 at a concrete input. With no nested delimiter, the environment
  \<open>db={"host": "h1"}\<close>, \<open>db_port=5432\<close> and the candidate name \<open>db\<close>,
  \<open>explode_env_vars\<close> raises \<open>ValueError\<close> where the claim promises a sub-mapping, and so
  does the whole call of \<open>EnvSource\<close> on a complex field \<open>db\<close>.
\<close>

theorem explode_env_vars_empty_delimiter:
  "explode_env_vars [(''db'', Some ''{\"host\": \"h1\"}''), (''db_port'', Some ''5432'')] [''db''] None
     = Inl (ValueError ''empty separator'') \<and>
   EnvSource_call (EnvSource_init None None None None (Some False)) db_world
     (sample_model [complex_field ''db'']) = Inl (ValueError ''empty separator'')"
  by code_simp

section \<open>SecretsSource with several existing candidates\<close>

text \<open>
  Claim C4 at a concrete input. Both candidates \<open>api_key\<close> and \<open>apikey\<close> exist as regular
  files; the loop has no \<open>break\<close>, so the field's value is the content of the last
  existing candidate, not of the first.
\<close>

theorem secrets_last_candidate_wins:
  "SecretsSource_call (SecretsSource_init (Some ''/run/secrets'') None) secrets_world
     (sample_model [api_key_field]) = ([], Inr [(''api_key'', VStr ''second'')])"
  by code_simp

section \<open>EnvSource constructed without a case-sensitivity option\<close>

text \<open>
  Claim C6 at a concrete input. \<open>EnvSource()\<close> is case-sensitive: with \<open>DB_HOST=localhost\<close>
  in the environment and a field \<open>db_host\<close> it finds nothing, where the source constructed
  with \<open>case_sensitive=False\<close> finds the value.
\<close>

theorem env_source_default_case_sensitive:
  "case_sensitive (EnvSource_init None None None None None) = True \<and>
   EnvSource_call (EnvSource_init None None None None None) upper_world
     (sample_model [plain_field ''db_host'']) = Inr [] \<and>
   EnvSource_call (EnvSource_init None None None None (Some False)) upper_world
     (sample_model [plain_field ''db_host'']) = Inr [(''db_host'', VStr ''localhost'')]"
  by code_simp

section \<open>Configuring a source for an environment\<close>

lemma configure_unknown_name:
  "map_of (reg_sources st) name = None \<Longrightarrow>
   configure name env options st = (st, Inl (ValueError ''not registered''))"
  by (simp add: configure_def)

lemma configure_missing_environment:
  "map_of (reg_sources st) name = Some fac \<Longrightarrow> map_of (reg_registry st) env = None \<Longrightarrow>
   configure name env options st = (st, Inl (KeyError env))"
  by (simp add: configure_def registry_bind_def)

lemma configure_rebinds:
  "map_of (reg_sources st) name = Some fac \<Longrightarrow> map_of (reg_registry st) env = Some table \<Longrightarrow>
   configure name env options st =
     (st\<lparr>reg_registry := dict_set env (dict_set name (Partial fac options) table) (reg_registry st)\<rparr>,
      Inr \<lparr>handle_name = name, handle_factory = fac\<rparr>)"
  by (simp add: configure_def registry_bind_def)

text \<open>
  Where the environment has a table, \<open>configure\<close> of a registered name succeeds: it
  binds the name in that table to the partial application of the registered factory to the
  options and leaves every other binding alone; a second call for the same name and
  environment replaces the binding.
\<close>

theorem configure_existing_environment:
  assumes reg: "map_of (reg_sources st) name = Some fac"
    and tbl: "map_of (reg_registry st) env = Some table"
  shows "\<exists>st' table'.
           configure name env options st = (st', Inr \<lparr>handle_name = name, handle_factory = fac\<rparr>) \<and>
           reg_sources st' = reg_sources st \<and>
           map_of (reg_registry st') env = Some table' \<and>
           map_of table' name = Some (Partial fac options) \<and>
           (\<forall>n. n \<noteq> name \<longrightarrow> map_of table' n = map_of table n) \<and>
           (\<forall>e. e \<noteq> env \<longrightarrow> map_of (reg_registry st') e = map_of (reg_registry st) e) \<and>
           (\<forall>options2. \<exists>st2 table2.
              configure name env options2 st' = (st2, Inr \<lparr>handle_name = name, handle_factory = fac\<rparr>) \<and>
              map_of (reg_registry st2) env = Some table2 \<and>
              map_of table2 name = Some (Partial fac options2))"
proof -
  define table' where "table' = dict_set name (Partial fac options) table"
  define st' where "st' = st\<lparr>reg_registry := dict_set env table' (reg_registry st)\<rparr>"
  have c: "configure name env options st = (st', Inr \<lparr>handle_name = name, handle_factory = fac\<rparr>)"
    using configure_rebinds[OF reg tbl] by (simp add: st'_def table'_def)
  have s: "reg_sources st' = reg_sources st"
    by (simp add: st'_def)
  have t: "map_of (reg_registry st') env = Some table'"
    by (simp add: st'_def map_of_dict_set)
  have n: "map_of table' name = Some (Partial fac options)"
    by (simp add: table'_def map_of_dict_set)
  have o: "\<forall>n. n \<noteq> name \<longrightarrow> map_of table' n = map_of table n"
    by (simp add: table'_def map_of_dict_set)
  have e: "\<forall>e. e \<noteq> env \<longrightarrow> map_of (reg_registry st') e = map_of (reg_registry st) e"
    by (simp add: st'_def map_of_dict_set)
  have again: "\<exists>st2 table2.
              configure name env options2 st' = (st2, Inr \<lparr>handle_name = name, handle_factory = fac\<rparr>) \<and>
              map_of (reg_registry st2) env = Some table2 \<and>
              map_of table2 name = Some (Partial fac options2)" for options2
  proof -
    have reg': "map_of (reg_sources st') name = Some fac"
      using reg s by simp
    show ?thesis
      using configure_rebinds[OF reg' t, of options2] by (simp add: map_of_dict_set)
  qed
  from c s t n o e again show ?thesis by blast
qed

theorem configure_existing_environment_witness:
  "\<exists>st' table'.
     configure ''env'' ''default'' [(''env_prefix'', VStr ''APP_'')] initial_registry
       = (st', Inr \<lparr>handle_name = ''env'', handle_factory = Plain EnvSourceF\<rparr>) \<and>
     map_of (reg_registry st') ''default'' = Some table' \<and>
     map_of table' ''env'' = Some (Partial (Plain EnvSourceF) [(''env_prefix'', VStr ''APP_'')])"
proof -
  have reg: "map_of (reg_sources initial_registry) ''env'' = Some (Plain EnvSourceF)"
    by (simp add: initial_registry_def builtin_sources_def)
  have tbl: "map_of (reg_registry initial_registry) ''default'' = Some builtin_sources"
    by (simp add: initial_registry_def)
  from configure_existing_environment[OF reg tbl, of "[(''env_prefix'', VStr ''APP_'')]"]
  show ?thesis by blast
qed

text \<open>
  Claim C7 at a concrete input. On the registry as the module creates it, \<open>env\<close> is a
  registered name, yet \<open>configure("env", "prod")\<close> raises \<open>KeyError\<close>: only the
  environment \<open>default\<close> has a table, and nothing creates another. \<open>Source.configure\<close>
  fails the same way.
\<close>

theorem configure_new_environment_fails:
  "map_of (reg_sources initial_registry) ''env'' = Some (Plain EnvSourceF) \<and>
   configure ''env'' ''prod'' [(''env_prefix'', VStr ''APP_'')] initial_registry
     = (initial_registry, Inl (KeyError ''prod'')) \<and>
   Source_configure \<lparr>handle_name = ''env'', handle_factory = Plain EnvSourceF\<rparr> ''prod''
       [(''env_prefix'', VStr ''APP_'')] initial_registry
     = (initial_registry, Inl (KeyError ''prod''))"
  by (simp add: configure_def Source_configure_def registry_bind_def initial_registry_def
      builtin_sources_def)

section \<open>A union field whose value is not JSON\<close>

lemma find_env_first:
  "i < length names \<Longrightarrow> env_get vars (names ! i) = Some raw \<Longrightarrow>
   \<forall>j<i. env_get vars (names ! j) = None \<Longrightarrow>
   find_env vars names n0 = (names ! i, Some raw)"
proof (induction names arbitrary: i n0)
  case Nil
  then show ?case by simp
next
  case (Cons n names)
  show ?case
  proof (cases i)
    case 0
    with Cons.prems show ?thesis by simp
  next
    case (Suc i')
    with Cons.prems have "env_get vars n = None" by auto
    moreover have "find_env vars names n = (names ! i', Some raw)"
      using Cons.prems Suc by (intro Cons.IH) auto
    ultimately show ?thesis using Suc by simp
  qed
qed

text \<open>
  Claim C3, as amended. For a field that declares no match pattern, is not complex itself
  and has a union type with a complex alternative, when the first candidate name with a
  value yields a text that fails JSON decoding, the failure is tolerated and the raw text
  is assigned as the field's value; delimiter-exploded assembly is not consulted.
\<close>

theorem env_field_tolerated_json_failure:
  assumes nomatch: "extra_matchfull f = None \<or> extra_matchfull f = Some []"
    and union: "\<not> is_complex f" "is_union f" "True \<in> set (sub_fields f)"
    and i: "i < length (env_names_of src f)"
    and found: "env_get vars (env_names_of src f ! i) = Some raw"
    and before: "\<forall>j<i. env_get vars (env_names_of src f ! j) = None"
    and fails: "json_loads m raw = None"
  shows "env_field src w m vars f d = Inr (dict_set (field_alias f) (VStr raw) d) \<and>
         map_of (dict_set (field_alias f) (VStr raw) d) (field_alias f) = Some (VStr raw)"
proof -
  have fe: "find_env vars (env_names_of src f) [] = (env_names_of src f ! i, Some raw)"
    using find_env_first[OF i found before] .
  have cx: "field_is_complex f = (True, True)"
    using union by (auto simp: field_is_complex_def)
  have "env_field src w m vars f d = Inr (dict_set (field_alias f) (VStr raw) d)"
    using nomatch fe cx fails by (auto simp: env_field_def)
  then show ?thesis by (simp add: map_of_dict_set)
qed

theorem env_field_tolerated_json_failure_witness:
  "env_field (EnvSource_init None None (Some ''__'') None (Some False)) union_world
     (sample_model [union_field ''db'']) union_vars (union_field ''db'') []
     = Inr [(''db'', VStr ''not json'')]"
proof -
  let ?src = "EnvSource_init None None (Some ''__'') None (Some False)"
  let ?f = "union_field ''db''"
  let ?m = "sample_model [union_field ''db'']"
  have names: "env_names_of ?src ?f = [''db'']"
    by code_simp
  have nomatch: "extra_matchfull ?f = None \<or> extra_matchfull ?f = Some []"
    by (simp add: union_field_def plain_field_def)
  have u1: "\<not> is_complex ?f" and u2: "is_union ?f" and u3: "True \<in> set (sub_fields ?f)"
    by (simp_all add: union_field_def plain_field_def)
  have i: "0 < length (env_names_of ?src ?f)"
    by (simp add: names)
  have found: "env_get union_vars (env_names_of ?src ?f ! 0) = Some ''not json''"
    by (simp add: names union_vars_def env_get_def)
  have before: "\<forall>j<0. env_get union_vars (env_names_of ?src ?f ! j) = None"
    by simp
  have fails: "json_loads ?m ''not json'' = None"
    by (simp add: sample_model_def sample_json_loads_def)
  have al: "field_alias ?f = ''db''"
    by (simp add: union_field_def plain_field_def)
  show ?thesis
    using env_field_tolerated_json_failure[OF nomatch u1 u2 u3 i found before fails,
        of union_world "[]"]
    by (simp add: al)
qed

text \<open>
  The claim as first stated fails: with \<open>db=not json\<close> and \<open>db__port=5432\<close> under the
  delimiter \<open>__\<close>, the field's entry is the raw text, not the exploded \<open>{port: 5432}\<close>.
\<close>

theorem env_source_raw_string_counterexample:
  "EnvSource_call (EnvSource_init None None (Some ''__'') None (Some False)) union_world
     (sample_model [union_field ''db'']) = Inr [(''db'', VStr ''not json'')] \<and>
   explode_env_vars union_vars [''db''] (Some ''__'') = Inr [(''port'', VStr ''5432'')]"
  by code_simp

section \<open>Fields with a match pattern\<close>



























section \<open>The secrets directory\<close>

lemma secret_names_error:
  "secret_names w m dir f ns ws s = (ws', Inl e) \<Longrightarrow> (\<exists>n. e = JsonError n) \<or> (\<exists>r n. e = ReadError r n)"
  by (induction ns arbitrary: ws s)
    (auto simp: Let_def split: option.splits fs_node.splits sum.splits if_splits)

lemma secret_fields_error:
  "secret_fields src w m dir fs ws s = (ws', Inl e) \<Longrightarrow> (\<exists>n. e = JsonError n) \<or> (\<exists>r n. e = ReadError r n)"
proof (induction fs arbitrary: ws s)
  case Nil
  then show ?case by simp
next
  case (Cons f fs)
  then show ?case
    by (auto simp: Let_def split: prod.splits sum.splits dest: secret_names_error)
qed

text \<open>
  Claim C9, as amended. \<open>SecretsSource\<close> returns an empty mapping, without a warning,
  when no directory is configured; a path that does not exist gives one warning and an
  empty mapping; and the call fails with the not-a-directory error exactly when the path
  exists and is not a directory.
\<close>

theorem secrets_directory_cases:
  "(secrets_dir src = None \<longrightarrow> SecretsSource_call src w m = ([], Inr [])) \<and>
   (\<forall>dir. secrets_dir src = Some dir \<and> path_node w dir = None \<longrightarrow>
      SecretsSource_call src w m = ([DirectoryMissing dir], Inr [])) \<and>
   (\<forall>dir. secrets_dir src = Some dir \<longrightarrow>
      (snd (SecretsSource_call src w m) = Inl (NotADirectory dir)
         \<longleftrightarrow> path_node w dir \<noteq> None \<and> path_node w dir \<noteq> Some Directory))"
proof (intro conjI allI impI)
  assume "secrets_dir src = None"
  then show "SecretsSource_call src w m = ([], Inr [])"
    by (simp add: SecretsSource_call_def)
next
  fix dir assume "secrets_dir src = Some dir \<and> path_node w dir = None"
  then show "SecretsSource_call src w m = ([DirectoryMissing dir], Inr [])"
    by (simp add: SecretsSource_call_def)
next
  fix dir assume dir: "secrets_dir src = Some dir"
  show "snd (SecretsSource_call src w m) = Inl (NotADirectory dir)
         \<longleftrightarrow> path_node w dir \<noteq> None \<and> path_node w dir \<noteq> Some Directory"
  proof (cases "path_node w dir")
    case None
    with dir show ?thesis by (simp add: SecretsSource_call_def)
  next
    case (Some node)
    show ?thesis
    proof (cases node)
      case Directory
      obtain ws r where r: "secret_fields src w m dir (model_fields m) [] [] = (ws, r)"
        by (cases "secret_fields src w m dir (model_fields m) [] []")
      have "r \<noteq> Inl (NotADirectory dir)"
        using secret_fields_error[of src w m dir "model_fields m" "[]" "[]" ws "NotADirectory dir"] r
        by auto
      with dir Some Directory r show ?thesis by (simp add: SecretsSource_call_def)
    qed (use dir Some in \<open>simp_all add: SecretsSource_call_def\<close>)
  qed
qed

theorem secrets_directory_cases_witness:
  "SecretsSource_call (SecretsSource_init None None) secrets_world (sample_model [api_key_field])
     = ([], Inr []) \<and>
   SecretsSource_call (SecretsSource_init (Some ''/missing'') None) secrets_world
     (sample_model [api_key_field]) = ([DirectoryMissing ''/missing''], Inr [])"
  using secrets_directory_cases[of "SecretsSource_init None None" secrets_world
      "sample_model [api_key_field]"]
    secrets_directory_cases[of "SecretsSource_init (Some ''/missing'') None" secrets_world
      "sample_model [api_key_field]"]
  by (simp add: SecretsSource_init_def secrets_world_def empty_world_def)

text \<open>
  The claim as first stated fails: \<open>/run/secrets\<close> is a directory, yet the call fails,
  because the secret of the complex field \<open>api_key\<close> is not JSON.
\<close>

theorem secrets_json_error_counterexample:
  "path_node secrets_world ''/run/secrets'' = Some Directory \<and>
   SecretsSource_call (SecretsSource_init (Some ''/run/secrets'') None) secrets_world
     (sample_model [complex_field ''api_key'']) = ([], Inl (JsonError ''api_key''))"
  by code_simp

section \<open>Empty values in the INI file\<close>

lemma ini_fields_other:
  "\<forall>f \<in> set fs. field_alias f \<noteq> a \<Longrightarrow>
   map_of (ini_fields src parser ds fs result) a = map_of result a"
  by (induction fs arbitrary: result) (auto simp: map_of_dict_set split: option.splits)

lemma ini_fields_lookup:
  "distinct (map field_alias fs) \<Longrightarrow> f \<in> set fs \<Longrightarrow>
   map_of (ini_fields src parser ds fs result) (field_alias f) =
     (case ini_get parser (ini_section_of src ds f) (ini_key_of src f) of
        None \<Rightarrow> map_of result (field_alias f)
      | Some v \<Rightarrow> if v \<noteq> [] then Some (VStr v) else map_of result (field_alias f))"
proof (induction fs arbitrary: result)
  case Nil
  then show ?case by simp
next
  case (Cons g fs)
  show ?case
  proof (cases "g = f")
    case True
    with Cons.prems have "field_alias f \<notin> field_alias ` set fs" by simp
    then have "\<forall>h \<in> set fs. field_alias h \<noteq> field_alias f" by (metis imageI)
    then show ?thesis using True
      by (auto simp: ini_fields_other map_of_dict_set split: option.splits)
  next
    case False
    with Cons.prems have mem: "f \<in> set fs" and ne: "field_alias g \<noteq> field_alias f"
      and dist: "distinct (map field_alias fs)" by auto
    show ?thesis using Cons.IH[OF dist mem] ne
      by (auto simp: map_of_dict_set split: option.splits)
  qed
qed

lemma ini_fields_removeAll:
  "ini_get parser (ini_section_of src ds f) (ini_key_of src f) = Some [] \<Longrightarrow>
   ini_fields src parser ds (removeAll f fs) result = ini_fields src parser ds fs result"
  by (induction fs arbitrary: result) (auto split: option.splits)

text \<open>
  Claim C10. A field whose section and key are present in the INI file with the empty
  text contributes nothing: \<open>IniFileSource\<close> returns what it returns for the schema
  without that field. With distinct aliases, a field is in the returned mapping exactly
  when the value found for it is a non-empty text, so the field with the empty text is
  absent, and merging the mapping over any lower-precedence mapping leaves that mapping's
  value for the alias as it was.
\<close>

theorem ini_empty_value_omitted:
  assumes call: "IniFileSource_call src w m = Inr result"
    and path: "ini_file src = Some file"
    and parsed: "read_ini w file (ini_file_encoding src) = Inr parser"
    and dflt: "default_section = (case ini_default_section src of None \<Rightarrow> ''DEFAULT'' | Some s \<Rightarrow> s)"
    and f: "f \<in> set (model_fields m)"
    and empty: "ini_get parser (ini_section_of src default_section f) (ini_key_of src f) = Some []"
  shows "IniFileSource_call src w (m\<lparr>model_fields := removeAll f (model_fields m)\<rparr>) = Inr result \<and>
         (distinct (map field_alias (model_fields m)) \<longrightarrow>
            map_of result (field_alias f) = None \<and>
            (\<forall>low. map_of (deep_update low result) (field_alias f) = map_of low (field_alias f)) \<and>
            (\<forall>g \<in> set (model_fields m).
               map_of result (field_alias g) =
                 (case ini_get parser (ini_section_of src default_section g) (ini_key_of src g) of
                    None \<Rightarrow> None
                  | Some v \<Rightarrow> if v \<noteq> [] then Some (VStr v) else None)))"
proof -
  have res: "result = ini_fields src parser default_section (model_fields m) []"
    using call path parsed dflt
    by (auto simp: IniFileSource_call_def split: option.splits fs_node.splits if_splits)
  have without: "IniFileSource_call src w (m\<lparr>model_fields := removeAll f (model_fields m)\<rparr>) = Inr result"
    using call path parsed dflt ini_fields_removeAll[OF empty, of "model_fields m" "[]"]
    by (auto simp: IniFileSource_call_def split: option.splits fs_node.splits if_splits)
  have look: "map_of result (field_alias g) =
           (case ini_get parser (ini_section_of src default_section g) (ini_key_of src g) of
              None \<Rightarrow> None
            | Some v \<Rightarrow> if v \<noteq> [] then Some (VStr v) else None)"
    if "distinct (map field_alias (model_fields m))" "g \<in> set (model_fields m)" for g
    unfolding res using ini_fields_lookup[OF that, of src parser default_section "[]"]
    by (simp split: option.splits)
  have absent: "map_of result (field_alias f) = None"
    if "distinct (map field_alias (model_fields m))"
    using look[OF that f] empty by simp
  show ?thesis
    using without look absent by (auto simp: deep_update_absent)
qed

theorem ini_empty_value_omitted_witness:
  "IniFileSource_call (IniFileSource_init (Some ''settings.ini'') None (Some ''app'') None) ini_world
     (sample_model [plain_field ''host'', plain_field ''port'']) = Inr [(''port'', VStr ''8080'')] \<and>
   map_of [(''port'', VStr ''8080'')] ''host'' = None \<and>
   (\<forall>low. map_of (deep_update low [(''port'', VStr ''8080'')]) ''host'' = map_of low ''host'')"
proof -
  let ?src = "IniFileSource_init (Some ''settings.ini'') None (Some ''app'') None"
  let ?m = "sample_model [plain_field ''host'', plain_field ''port'']"
  have call: "IniFileSource_call ?src ini_world ?m = Inr [(''port'', VStr ''8080'')]"
    by code_simp
  have path: "ini_file ?src = Some ''settings.ini''"
    by (simp add: IniFileSource_init_def)
  have parsed: "read_ini ini_world ''settings.ini'' (ini_file_encoding ?src) = Inr sample_parser"
    by (simp add: ini_world_def empty_world_def)
  have dflt: "''app'' = (case ini_default_section ?src of None \<Rightarrow> ''DEFAULT'' | Some s \<Rightarrow> s)"
    by (simp add: IniFileSource_init_def)
  have dist: "distinct (map field_alias (model_fields ?m))"
    by (simp add: sample_model_def plain_field_def)
  have f: "plain_field ''host'' \<in> set (model_fields ?m)"
    by (simp add: sample_model_def)
  have sec: "ini_section_of ?src ''app'' (plain_field ''host'') = ''app''"
    by code_simp
  have key: "ini_key_of ?src (plain_field ''host'') = ''host''"
    by code_simp
  have val: "ini_get sample_parser (ini_section_of ?src ''app'' (plain_field ''host''))
      (ini_key_of ?src (plain_field ''host'')) = Some []"
    by (simp add: sec key sample_parser_def)
  have al: "field_alias (plain_field ''host'') = ''host''"
    by (simp add: plain_field_def)
  show ?thesis
    using ini_empty_value_omitted[OF call path parsed dflt f val] call dist
    by (simp add: al)
qed

section \<open>DelimitedList: the detected delimiter and the round trip\<close>

lemma counter_fold_lookup:
  "map_of (fold (\<lambda>c d. dict_set c (case map_of d c of None \<Rightarrow> 1 | Some n \<Rightarrow> n + 1) d) v d) c =
     (if c \<in> set v then Some (count_list v c + (case map_of d c of None \<Rightarrow> 0 | Some n \<Rightarrow> n))
      else map_of d c)"
  by (induction v arbitrary: d) (auto simp: map_of_dict_set split: option.splits)

lemma counter_lookup:
  "map_of (counter v) c = (if c \<in> set v then Some (count_list v c) else None)"
  by (simp add: counter_def counter_fold_lookup)

lemma counter_fold_distinct:
  "distinct (map fst d) \<Longrightarrow>
   distinct (map fst (fold (\<lambda>c d. dict_set c (case map_of d c of None \<Rightarrow> 1 | Some n \<Rightarrow> n + 1) d) v d))"
  by (induction v arbitrary: d) (auto simp: distinct_dict_set)

lemma counter_distinct: "distinct (map fst (counter v))"
  by (simp add: counter_def counter_fold_distinct)

lemma counter_entry: "(k, n) \<in> set (counter v) \<longleftrightarrow> k \<in> set v \<and> n = count_list v k"
proof -
  have "(k, n) \<in> set (counter v) \<longleftrightarrow> map_of (counter v) k = Some n"
    using map_of_eq_Some_iff[OF counter_distinct, of v k n] by simp
  then show ?thesis by (auto simp: counter_lookup split: if_splits)
qed

lemma sorted_filter_head:
  assumes "filter P (sort_key f xs) = y # ys" and "x \<in> set xs" and "P x"
  shows "f y \<le> f x"
proof -
  have "sorted (map f (filter P (sort_key f xs)))"
    by (simp add: sorted_filter)
  then have "sorted (map f (y # ys))"
    using assms(1) by simp
  moreover have "x \<in> set (filter P (sort_key f xs))"
    using assms(2,3) by simp
  then have "x \<in> set (y # ys)"
    using assms(1) by simp
  ultimately show ?thesis by auto
qed

lemma separator_cases:
  "(set v \<inter> set order = {} \<and> separator v = [44]) \<or>
   (\<exists>c. separator v = [c] \<and> c \<in> set order \<and> c \<in> set v \<and>
        (\<forall>c' \<in> set order. count_list v c' \<le> count_list v c))"
proof -
  let ?P = "\<lambda>(k :: nat, n :: nat). k \<in> set order"
  let ?f = "\<lambda>(k :: nat, n :: nat). - int n"
  have cands: "filter (\<lambda>k. k \<in> set order) (map fst (most_common (counter v))) =
               map fst (filter ?P (sort_key ?f (counter v)))"
    by (simp add: most_common_def filter_map comp_def case_prod_unfold)
  show ?thesis
  proof (cases "filter ?P (sort_key ?f (counter v))")
    case Nil
    then have "\<forall>x \<in> set (counter v). \<not> ?P x"
      by (metis (no_types, lifting) filter_empty_conv set_sort)
    then have "set v \<inter> set order = {}"
      using counter_entry by fastforce
    moreover have "separator v = [44]"
      using Nil by (simp add: separator_def cands)
    ultimately show ?thesis by simp
  next
    case (Cons y ys)
    obtain c n where y: "y = (c, n)" by (cases y)
    have sep: "separator v = [c]"
      using Cons y by (simp add: separator_def cands)
    have "y \<in> set (filter ?P (sort_key ?f (counter v)))"
      using Cons by simp
    then have mem: "(c, n) \<in> set (counter v)" and ord: "c \<in> set order"
      using y by auto
    then have cv: "c \<in> set v" and n: "n = count_list v c"
      using counter_entry by auto
    have "count_list v c' \<le> count_list v c" if "c' \<in> set order" for c'
    proof (cases "c' \<in> set v")
      case True
      then have "(c', count_list v c') \<in> set (counter v)"
        by (simp add: counter_entry)
      from sorted_filter_head[OF Cons this] that
      have "?f y \<le> ?f (c', count_list v c')" by simp
      then show ?thesis using y n by simp
    next
      case False
      then show ?thesis by (simp add: count_list_0_iff)
    qed
    with sep ord cv show ?thesis by blast
  qed
qed

lemma split_from_nonempty: "split_from sep acc s \<noteq> []"
  by (induction sep acc s rule: split_from.induct) auto

lemma py_join_Cons: "xs \<noteq> [] \<Longrightarrow> py_join sep (x # xs) = x @ sep @ py_join sep xs"
  by (cases xs) auto

lemma join_split_from:
  "sep \<noteq> [] \<Longrightarrow> py_join sep (split_from sep acc s) = acc @ s"
proof (induction sep acc s rule: split_from.induct)
  case (1 sep acc)
  then show ?case by simp
next
  case (2 sep acc c cs)
  show ?case
  proof (cases "startswith (c # cs) sep")
    case True
    then have "c # cs = sep @ drop (length sep) (c # cs)"
      by (metis append_take_drop_id startswith_def)
    with 2 True show ?thesis
      by (simp add: py_join_Cons split_from_nonempty)
  next
    case False
    with 2 show ?thesis by simp
  qed
qed

lemma split_from_pieces:
  "c \<notin> set acc \<Longrightarrow> \<forall>x \<in> set (split_from [c] acc s). c \<notin> set x"
proof (induction "[c]" acc s rule: split_from.induct)
  case (1 acc)
  then show ?case by simp
next
  case (2 acc c' cs)
  then show ?case by (auto simp: startswith_def)
qed

text \<open>
  Claim C8, as amended. For every input string, \<open>validate\<close> returns a list: its
  delimiter is a candidate; it is \<open>,\<close> when the string holds no candidate, and
  otherwise a candidate that occurs in the string at least as often as every other
  candidate. For a non-empty string the elements are the pieces between the occurrences
  of the delimiter, each with its surrounding whitespace trimmed, in a list of the
  instance's own; the empty string gives an instance on the constructor's shared default
  list. \<open>__str__\<close> joins the elements with the delimiter. Serializing gives the
  original string back whenever no piece has leading or trailing whitespace and, for the
  empty string, the shared default list is empty.
\<close>

theorem delimited_list_roundtrip:
  "\<exists>c dl. separator v = [c] \<and> c \<in> set order \<and>
     (set v \<inter> set order = {} \<longrightarrow> c = 44) \<and>
     (set v \<inter> set order \<noteq> {} \<longrightarrow>
        c \<in> set v \<and> (\<forall>c' \<in> set order. count_list v c' \<le> count_list v c)) \<and>
     validate v = Inr dl \<and>
     dl_delimiter dl = [c] \<and>
     (v = [] \<longrightarrow> dl_list dl = DefaultList) \<and>
     (v \<noteq> [] \<longrightarrow> dl_list dl = OwnList (map strip_text (split_from [c] [] v))) \<and>
     py_join [c] (split_from [c] [] v) = v \<and>
     (\<forall>x \<in> set (split_from [c] [] v). c \<notin> set x) \<and>
     (\<forall>shared. to_str shared dl = py_join [c] (elements shared dl)) \<and>
     (\<forall>shared. (v \<noteq> [] \<or> shared = []) \<and> (\<forall>x \<in> set (split_from [c] [] v). strip_text x = x)
        \<longrightarrow> to_str shared dl = v)"
proof -
  obtain c where sep: "separator v = [c]" and ord: "c \<in> set order"
    and none: "set v \<inter> set order = {} \<longrightarrow> c = 44"
    and most: "set v \<inter> set order \<noteq> {} \<longrightarrow>
        c \<in> set v \<and> (\<forall>c' \<in> set order. count_list v c' \<le> count_list v c)"
    using separator_cases[of v] by (auto simp: order_def)
  define dl where "dl = (if v = [] then DelimitedList_init None None
      else DelimitedList_init (Some (map strip_text (split_from [c] [] v))) (Some [c]))"
  have val: "validate v = Inr dl"
    by (simp add: validate_def py_split_def sep dl_def)
  have empty_sep: "v = [] \<Longrightarrow> c = 44"
    using none by simp
  have delim: "dl_delimiter dl = [c]"
    using empty_sep by (simp add: dl_def DelimitedList_init_def)
  have lst0: "v = [] \<longrightarrow> dl_list dl = DefaultList"
    by (simp add: dl_def DelimitedList_init_def)
  have lst1: "v \<noteq> [] \<longrightarrow> dl_list dl = OwnList (map strip_text (split_from [c] [] v))"
    by (simp add: dl_def DelimitedList_init_def)
  have join: "py_join [c] (split_from [c] [] v) = v"
    using join_split_from[of "[c]" "[]" v] by simp
  have pieces: "\<forall>x \<in> set (split_from [c] [] v). c \<notin> set x"
    using split_from_pieces[of c "[]" v] by simp
  have str: "\<forall>shared. to_str shared dl = py_join [c] (elements shared dl)"
    by (simp add: to_str_def delim)
  have round: "to_str shared dl = v"
    if "v \<noteq> [] \<or> shared = []" "\<forall>x \<in> set (split_from [c] [] v). strip_text x = x" for shared
  proof (cases "v = []")
    case True
    with that(1) lst0 show ?thesis by (simp add: to_str_def elements_def)
  next
    case False
    have "map strip_text (split_from [c] [] v) = split_from [c] [] v"
      using that(2) by (simp add: map_idI)
    with False lst1 show ?thesis by (simp add: to_str_def delim elements_def join)
  qed
  from sep ord none most val delim lst0 lst1 join pieces str round show ?thesis
    by (intro exI[of _ c] exI[of _ dl]) blast
qed

theorem delimited_list_roundtrip_witness:
  "separator (text_of ''a;b;c'') = text_of '';'' \<and>
   (\<exists>dl. validate (text_of ''a;b;c'') = Inr dl \<and>
      dl_list dl = OwnList [text_of ''a'', text_of ''b'', text_of ''c''] \<and>
      to_str [] dl = text_of ''a;b;c'') \<and>
   (\<exists>dl. validate (text_of ''a,b,c'') = Inr dl \<and>
      dl_list dl = OwnList [text_of ''a'', text_of ''b'', text_of ''c''] \<and>
      to_str [] dl = text_of ''a,b,c'')"
proof -
  have s1: "separator (text_of ''a;b;c'') = [59]" by code_simp
  have p1: "split_from [59] [] (text_of ''a;b;c'') = [text_of ''a'', text_of ''b'', text_of ''c'']"
    by code_simp
  have s2: "separator (text_of ''a,b,c'') = [44]" by code_simp
  have p2: "split_from [44] [] (text_of ''a,b,c'') = [text_of ''a'', text_of ''b'', text_of ''c'']"
    by code_simp
  have st: "strip_text (text_of ''a'') = text_of ''a''" "strip_text (text_of ''b'') = text_of ''b''"
    "strip_text (text_of ''c'') = text_of ''c''"
    by (simp_all add: strip_text_def strip_by_def is_space_cp_def text_of_def)
  have n1: "text_of ''a;b;c'' \<noteq> []" and n2: "text_of ''a,b,c'' \<noteq> []"
    by (simp_all add: text_of_def)
  have semi: "text_of '';'' = [59]" by code_simp
  from delimited_list_roundtrip[of "text_of ''a;b;c''"] s1 p1 st n1
  have a: "\<exists>dl. validate (text_of ''a;b;c'') = Inr dl \<and>
      dl_list dl = OwnList [text_of ''a'', text_of ''b'', text_of ''c''] \<and>
      to_str [] dl = text_of ''a;b;c''"
    by auto
  from delimited_list_roundtrip[of "text_of ''a,b,c''"] s2 p2 st n2
  have b: "\<exists>dl. validate (text_of ''a,b,c'') = Inr dl \<and>
      dl_list dl = OwnList [text_of ''a'', text_of ''b'', text_of ''c''] \<and>
      to_str [] dl = text_of ''a,b,c''"
    by auto
  from s1 semi a b show ?thesis by simp
qed

text \<open>
  The claim as first stated fails on \<open>a, b\<close>: the elements are trimmed, and serializing
  gives \<open>a,b\<close>. On \<open>a;b,c\<close>, where \<open>;\<close> and \<open>,\<close> occur once each, the delimiter is
  \<open>;\<close>, the candidate that occurs first in the string. And once \<open>x\<close> has been inserted
  into a list built by \<open>DelimitedList()\<close>, the empty string parses to a list that
  serializes as \<open>x\<close>.
\<close>

theorem delimited_list_whitespace_counterexample:
  "validate (text_of ''a, b'') =
     Inr \<lparr>dl_delimiter = text_of '','', dl_list = OwnList [text_of ''a'', text_of ''b'']\<rparr> \<and>
   to_str [] \<lparr>dl_delimiter = text_of '','', dl_list = OwnList [text_of ''a'', text_of ''b'']\<rparr>
     = text_of ''a,b'' \<and>
   text_of ''a,b'' \<noteq> text_of ''a, b'' \<and>
   validate (text_of ''a;b,c'') =
     Inr \<lparr>dl_delimiter = text_of '';'', dl_list = OwnList [text_of ''a'', text_of ''b,c'']\<rparr> \<and>
   insert_item 0 (text_of ''x'') [] (DelimitedList_init None None)
     = ([text_of ''x''], DelimitedList_init None None) \<and>
   validate [] = Inr (DelimitedList_init None None) \<and>
   to_str [text_of ''x''] (DelimitedList_init None None) = text_of ''x''"
proof -
  have t: "text_of ''a, b'' = [97, 44, 32, 98]" "text_of ''a;b,c'' = [97, 59, 98, 44, 99]"
    "text_of ''a,b'' = [97, 44, 98]" "text_of ''b,c'' = [98, 44, 99]" "text_of ''a'' = [97]"
    "text_of ''b'' = [98]" "text_of '','' = [44]" "text_of '';'' = [59]" "text_of ''x'' = [120]"
    by (simp_all add: text_of_def)
  have s1: "separator [97, 44, 32, 98] = [44]" by code_simp
  have p1: "split_from [44] [] [97, 44, 32, 98 :: nat] = [[97], [32, 98]]" by code_simp
  have s2: "separator [97, 59, 98, 44, 99] = [59]" by code_simp
  have p2: "split_from [59] [] [97, 59, 98, 44, 99 :: nat] = [[97], [98, 44, 99]]" by code_simp
  have st: "strip_text [97] = [97]" "strip_text [32, 98] = [98]" "strip_text [98, 44, 99] = [98, 44, 99]"
    by (simp_all add: strip_text_def strip_by_def is_space_cp_def)
  show ?thesis
    by (simp add: t validate_def py_split_def s1 p1 s2 p2 st DelimitedList_init_def to_str_def
        elements_def insert_item_def list_insert_def del: split_from.simps)
qed

end
